theory Spec2Isabelle
  imports Main
begin

section \<open>Session registry of the WhatsApp bridge\<close>

text \<open>
  The repository holds variants of one Express server that keeps WhatsApp sessions in a
  process-wide dictionary \<^verbatim>\<open>sessions\<close>. Two of them are embedded here:
  \<^item> \<^verbatim>\<open>src/api.js\<close>, built on Baileys; its definitions carry the prefix \<open>api_\<close>;
  \<^item> the first file of \<^verbatim>\<open>src/unnamed/part_000\<close>, the hybrid for Render Free built on
    whatsapp-web.js with a simulated fallback; its definitions carry the prefix \<open>rf_\<close>.
  The second file of \<^verbatim>\<open>part_000\<close>, an older variant on whatsapp-web.js alone, and the routes
  \<^verbatim>\<open>GET /sessions\<close>, \<^verbatim>\<open>POST /sessions/:id/send-media\<close>, \<^verbatim>\<open>GET /system/info\<close> and \<^verbatim>\<open>GET /\<close>,
  which write nothing to the dictionary, are not embedded.

  Conventions of the embedding.
  \<^item> The dictionary \<^verbatim>\<open>sessions\<close> is a map from session ids to session objects: its own
    keys. The handlers are written on that map, which is what they read for every id that
    is not the name of a member of \<^verbatim>\<open>Object.prototype\<close>. For such a name \<^verbatim>\<open>sessions[id]\<close>
    finds the inherited member; \<open>sessions_at\<close> is the dictionary as the lookups read it,
    and the destroy handlers on any id are \<open>api_delete_session_any_id\<close> and
    \<open>rf_delete_session_any_id\<close>.
  \<^item> A session object is a record with the union of the fields the two variants write;
    a field a variant never writes stays at \<open>None\<close> or \<open>False\<close> (JavaScript's
    \<^verbatim>\<open>undefined\<close>). The field \<^verbatim>\<open>messages\<close> is set to \<^verbatim>\<open>[]\<close> by every constructor of a
    session, so it is a list.
  \<^item> Every route handler and every event listener is one atomic step: it takes the
    dictionary and returns the dictionary it leaves. What an awaited call of a library
    returns or throws is an argument of the step (\<open>Returns\<close> or \<open>Throws\<close>). The start
    request of the hybrid variant, which writes the session before it awaits
    \<^verbatim>\<open>client.initialize()\<close> and writes again in its catch block, is also given as the two
    steps around that await, so that other steps can come between them.
  \<^item> A handler returns the HTTP response it sends, the calls it makes on the transport
    and the file system, in order, and the new dictionary.
  \<^item> The fixed Portuguese error texts are the constructors of \<open>error_text\<close>.
\<close>

subsection \<open>Data\<close>

type_synonym session_id = string

text \<open>The identity of a transport object: a Baileys socket or a whatsapp-web.js client.\<close>

type_synonym handle = nat

datatype 'a outcome = Returns 'a | Throws string

datatype media =
    ApiMedia string "string option" "string option" "string option"
  | RfMedia string string "string option"

record message_data =
  m_id :: string
  m_from :: string
  m_to :: "string option"
  m_pushName :: "string option"
  m_timestamp :: int
  m_body :: string
  m_hasMedia :: "bool option"
  m_type :: "string option"
  m_media :: "media option"

record wa_user =
  user_id :: string
  user_name :: "string option"

record session =
  isAuthenticated :: bool
  qrCode :: "string option"
  messages :: "message_data list"
  user :: "wa_user option"
  sock :: "handle option"
  client :: "handle option"
  connected :: bool
  simulated :: bool
  qrRaw :: "string option"

type_synonym sessions = "session_id \<rightharpoonup> session"

datatype error_text =
    SessaoNaoEncontrada
  | SessaoJaExiste
  | SessaoNaoAutenticada
  | NumeroEMensagemObrigatorios
  | TimeoutAguardandoQRCode
  | ErrorMessage string

record status_body =
  st_isAuthenticated :: bool
  st_connected :: "bool option"
  st_qrAvailable :: bool
  st_messageCount :: nat
  st_user :: "wa_user option"
  st_simulated :: "bool option"
  st_status :: string

datatype body =
    ErrorBody error_text
  | StartedBody session_id bool
  | QrAuthenticated "wa_user option" "bool option"
  | QrWaiting string "bool option"
  | QrGenerating bool
  | SentBody string int
  | MessagesBody "bool option" nat "message_data list"
  | StatusBody status_body
  | SuccessBody "bool option"

datatype response = Response (status: nat) (body: body)

text \<open>
  The callbacks the hybrid variant hands to \<^verbatim>\<open>setTimeout\<close>: the simulated authentication
  (part_000 154-160), the reconnection after a disconnect (122-127) and the
  re-initialisation that a restore schedules (427-429).
\<close>

datatype timer = SimulatedAuth session_id | Reconnect session_id handle | Reinitialize session_id

text \<open>The calls a step makes on the transport, the file system and the timers.\<close>

datatype effect =
    StartTransport session_id
  | SockEnd handle
  | RmSessionDir session_id
  | SendMessage handle string string
  | ClientInitialize handle
  | ClientDestroy handle
  | SetTimeout timer nat

type_synonym result = "response \<times> effect list \<times> sessions"

subsection \<open>JavaScript helpers\<close>

text \<open>Truthiness of a value that is a string, \<^verbatim>\<open>null\<close> or \<^verbatim>\<open>undefined\<close>.\<close>

fun truthy :: "string option \<Rightarrow> bool" where
  "truthy None = False"
| "truthy (Some s) = (s \<noteq> [])"

text \<open>\<^verbatim>\<open>xs.slice(-n)\<close> for a positive \<open>n\<close>: the last \<open>n\<close> elements, all of them when there are fewer.\<close>

definition slice_last :: "nat \<Rightarrow> 'a list \<Rightarrow> 'a list" where
  "slice_last n xs = drop (length xs - n) xs"

text \<open>The decimal text of a number, as a template literal renders \<^verbatim>\<open>Date.now()\<close>.\<close>

function dec :: "nat \<Rightarrow> string" where
  "dec n = (if n < 10 then [''0123456789'' ! n] else dec (n div 10) @ [''0123456789'' ! (n mod 10)])"
  by pat_completeness auto
termination
  by (relation "measure id") auto

declare dec.simps [simp del]

text \<open>\<^verbatim>\<open>req.body.sessionId || `session_${Date.now()}`\<close>\<close>

definition request_session_id :: "string option \<Rightarrow> nat \<Rightarrow> session_id" where
  "request_session_id body_id now = (if truthy body_id then the body_id else ''session_'' @ dec now)"

text \<open>\<^verbatim>\<open>number.replace(/\D/g, '')\<close>\<close>

definition is_digit :: "char \<Rightarrow> bool" where
  "is_digit c = (48 \<le> (of_char c :: nat) \<and> (of_char c :: nat) \<le> 57)"

definition strip_non_digits :: "string \<Rightarrow> string" where
  "strip_non_digits s = filter is_digit s"

text \<open>
  The message handler of both variants, after it has built \<^verbatim>\<open>messageData\<close>:
  \<^verbatim>\<open>messages.push(messageData); if (messages.length > 100) messages = messages.slice(-100)\<close>.
\<close>

definition push_message :: "message_data \<Rightarrow> session \<Rightarrow> session" where
  "push_message md s =
     (let s1 = s\<lparr>messages := messages s @ [md]\<rparr>
      in if length (messages s1) > 100 then s1\<lparr>messages := slice_last 100 (messages s1)\<rparr> else s1)"

text \<open>
  A write \<^verbatim>\<open>sessions[sessionId].f = v\<close>: it throws a TypeError when the id does not resolve.
\<close>

definition TypeError :: string where
  "TypeError = ''TypeError: Cannot read properties of undefined''"

definition modify :: "session_id \<Rightarrow> (session \<Rightarrow> session) \<Rightarrow> sessions \<Rightarrow> sessions outcome" where
  "modify sid f ss = (case ss sid of None \<Rightarrow> Throws TypeError | Some s \<Rightarrow> Returns (ss(sid \<mapsto> f s)))"

text \<open>
  \<^verbatim>\<open>Buffer.from(qr).toString('base64')\<close> on the bytes of the text, and the data URL that
  \<^verbatim>\<open>api.js\<close> stores as the pairing payload.
\<close>

definition b64_char :: "nat \<Rightarrow> char" where
  "b64_char n = ''ABCDEFGHIJKLMNOPQRSTUVWXYZabcdefghijklmnopqrstuvwxyz0123456789+/'' ! n"

fun base64 :: "nat list \<Rightarrow> string" where
  "base64 [] = []"
| "base64 [a] =
     [b64_char (a div 4), b64_char (a mod 4 * 16), CHR ''='', CHR ''='']"
| "base64 [a, b] =
     [b64_char (a div 4), b64_char (a mod 4 * 16 + b div 16), b64_char (b mod 16 * 4), CHR ''='']"
| "base64 (a # b # c # r) =
     [b64_char (a div 4), b64_char (a mod 4 * 16 + b div 16),
      b64_char (b mod 16 * 4 + c div 64), b64_char (c mod 64)] @ base64 r"

definition qrDataURL :: "string \<Rightarrow> string" where
  "qrDataURL qr = ''data:image/png;base64,'' @ base64 (map of_char qr)"

text \<open>
  The polling of \<^verbatim>\<open>GET /sessions/:id/qr\<close>, the same in both variants but for what is sent:
  \<^verbatim>\<open>
  let attempts = 0;
  const checkQR = setInterval(() => {
      if (session.qrCode) { clearInterval(checkQR); res.json({ qrCode: session.qrCode, ... }); }
      attempts++;
      if (attempts > 30) { clearInterval(checkQR); res.json(<timeout>) or res.status(408).json(...) }
  }, 1000);
  \<close>
  \<open>obs k\<close> is \<^verbatim>\<open>session.qrCode\<close> as the \<open>k\<close>-th run of the callback reads it (the handler
  holds the session object, which the listeners change meanwhile). The result lists the
  responses the callback sends, in order, until the interval is cleared; the client
  receives the first.
\<close>

function checkQR ::
  "(string \<Rightarrow> response) \<Rightarrow> response \<Rightarrow> (nat \<Rightarrow> string option) \<Rightarrow> nat \<Rightarrow> response list" where
  "checkQR found timeout obs attempts =
     (let seen = truthy (obs (attempts + 1));
          sent = (if seen then [found (the (obs (attempts + 1)))] else []);
          attempts1 = attempts + 1
      in if attempts1 > 30 then sent @ [timeout]
         else if seen then sent
         else checkQR found timeout obs attempts1)"
  by pat_completeness auto
termination
  by (relation "measure (\<lambda>(found, timeout, obs, attempts). 31 - attempts)") auto

declare checkQR.simps [simp del]

subsection \<open>The Baileys variant: \<^verbatim>\<open>src/api.js\<close>\<close>

text \<open>What a listener leaves behind: it ran to its end, or it threw and nobody caught it.\<close>

datatype completion = Done | Uncaught string

type_synonym listener_result = "completion \<times> effect list \<times> sessions"

datatype connection = ConnConnecting | ConnOpen | ConnClose

record update =
  connection :: "connection option"
  lastDisconnect_statusCode :: "nat option"
  qr :: "string option"

definition loggedOut :: nat where
  "loggedOut = 401"

text \<open>
  The listener of \<^verbatim>\<open>connection.update\<close> (api.js 46-84). \<open>sock_user\<close> is \<^verbatim>\<open>sock.user\<close>,
  \<open>dir_exists\<close> is \<^verbatim>\<open>fs.existsSync(sessionPath)\<close>, \<open>removed\<close> what \<^verbatim>\<open>fs.rmSync\<close> gives.
\<close>

definition api_on_connection_update ::
  "session_id \<Rightarrow> wa_user option \<Rightarrow> bool \<Rightarrow> unit outcome \<Rightarrow> update \<Rightarrow> sessions \<Rightarrow>
   listener_result" where
  "api_on_connection_update sid sock_user dir_exists removed upd ss =
     (case (if truthy (qr upd)
            then modify sid (\<lambda>s. s\<lparr>qrCode := Some (qrDataURL (the (qr upd))),
                                   isAuthenticated := False\<rparr>) ss
            else Returns ss) of
        Throws e \<Rightarrow> (Uncaught e, [], ss)
      | Returns ss1 \<Rightarrow>
          (case (if connection upd = Some ConnOpen
                 then modify sid (\<lambda>s. s\<lparr>isAuthenticated := True, qrCode := None,
                                        user := sock_user\<rparr>) ss1
                 else Returns ss1) of
             Throws e \<Rightarrow> (Uncaught e, [], ss1)
           | Returns ss2 \<Rightarrow>
               if connection upd = Some ConnClose
               then (if lastDisconnect_statusCode upd \<noteq> Some loggedOut
                     then (Done, [StartTransport sid], ss2)
                     else ((if dir_exists
                            then (case removed of Throws e \<Rightarrow> Uncaught e | Returns _ \<Rightarrow> Done)
                            else Done),
                           (if dir_exists then [RmSessionDir sid] else []), ss2(sid := None)))
               else (Done, [], ss2)))"

text \<open>The Baileys message as the listener of \<^verbatim>\<open>messages.upsert\<close> reads it.\<close>

record wa_media =
  mimetype :: "string option"
  caption :: "string option"
  url :: "string option"

record wa_content =
  conversation :: "string option"
  extendedTextMessage_text :: "string option"
  imageMessage :: "wa_media option"
  videoMessage :: "wa_media option"
  audioMessage :: "wa_media option"
  first_key :: "string option"

record wa_msg =
  key_id :: string
  key_remoteJid :: string
  pushName :: "string option"
  messageTimestamp :: int
  message :: "wa_content option"

definition api_media :: "wa_content \<Rightarrow> media option" where
  "api_media c =
     (case imageMessage c of
        Some m \<Rightarrow> Some (ApiMedia ''image'' (mimetype m) (caption m) (url m))
      | None \<Rightarrow>
          (case videoMessage c of
             Some m \<Rightarrow> Some (ApiMedia ''video'' (mimetype m) (caption m) (url m))
           | None \<Rightarrow>
               (case audioMessage c of
                  Some m \<Rightarrow> Some (ApiMedia ''audio'' (mimetype m) (caption m) (url m))
                | None \<Rightarrow> None)))"

definition api_messageData :: "wa_msg \<Rightarrow> wa_content \<Rightarrow> message_data" where
  "api_messageData msg c =
     \<lparr>m_id = key_id msg, m_from = key_remoteJid msg, m_to = None, m_pushName = pushName msg,
      m_timestamp = messageTimestamp msg,
      m_body = (if truthy (conversation c) then the (conversation c)
                else if truthy (extendedTextMessage_text c) then the (extendedTextMessage_text c)
                else ''[Midia ou outro tipo]''),
      m_hasMedia = None, m_type = first_key c, m_media = api_media c\<rparr>"

text \<open>
  The listener of \<^verbatim>\<open>messages.upsert\<close> (api.js 87-130); \<open>ms\<close> is \<^verbatim>\<open>m.messages\<close>. Reading
  \<^verbatim>\<open>msg.message\<close> of a missing first element throws, a message without content is ignored.
\<close>

definition api_on_messages_upsert :: "session_id \<Rightarrow> wa_msg list \<Rightarrow> sessions \<Rightarrow> listener_result" where
  "api_on_messages_upsert sid ms ss =
     (case ms of
        [] \<Rightarrow> (Uncaught TypeError, [], ss)
      | msg # _ \<Rightarrow>
          (case message msg of
             None \<Rightarrow> (Done, [], ss)
           | Some c \<Rightarrow>
               (case modify sid (push_message (api_messageData msg c)) ss of
                  Throws e \<Rightarrow> (Uncaught e, [], ss)
                | Returns ss1 \<Rightarrow> (Done, [], ss1))))"

text \<open>
  \<^verbatim>\<open>POST /sessions/start\<close> (api.js 136-164). \<open>started\<close> is what
  \<^verbatim>\<open>await startWhatsAppSession(sessionId)\<close> gives: the socket, or the error it throws.
\<close>

definition new_session :: session where
  "new_session = \<lparr>isAuthenticated = False, qrCode = None, messages = [], user = None,
     sock = None, client = None, connected = False, simulated = False, qrRaw = None\<rparr>"

definition api_post_sessions_start ::
  "string option \<Rightarrow> nat \<Rightarrow> handle outcome \<Rightarrow> sessions \<Rightarrow> result" where
  "api_post_sessions_start body_id now started ss =
     (let sessionId = request_session_id body_id now
      in if ss sessionId \<noteq> None then (Response 400 (ErrorBody SessaoJaExiste), [], ss)
         else
           (let ss1 = ss(sessionId \<mapsto> new_session)
            in case started of
                 Throws e \<Rightarrow>
                   (Response 500 (ErrorBody (ErrorMessage e)), [StartTransport sessionId],
                    ss1(sessionId := None))
               | Returns h \<Rightarrow>
                   (case modify sessionId (\<lambda>s. s\<lparr>sock := Some h\<rparr>) ss1 of
                      Throws e \<Rightarrow>
                        (Response 500 (ErrorBody (ErrorMessage e)), [StartTransport sessionId],
                         ss1(sessionId := None))
                    | Returns ss2 \<Rightarrow>
                        (Response 200 (StartedBody sessionId False), [StartTransport sessionId],
                         ss2))))"

text \<open>\<^verbatim>\<open>GET /sessions/:id/qr\<close> (api.js 181-220): the responses sent, in order.\<close>

definition api_get_qr :: "session_id \<Rightarrow> (nat \<Rightarrow> string option) \<Rightarrow> sessions \<Rightarrow> response list" where
  "api_get_qr sessionId obs ss =
     (case ss sessionId of
        None \<Rightarrow> [Response 404 (ErrorBody SessaoNaoEncontrada)]
      | Some session \<Rightarrow>
          if isAuthenticated session then [Response 200 (QrAuthenticated (user session) None)]
          else if truthy (qrCode session)
          then [Response 200 (QrWaiting (the (qrCode session)) None)]
          else checkQR (\<lambda>q. Response 200 (QrWaiting q None))
                 (Response 408 (ErrorBody TimeoutAguardandoQRCode)) obs 0)"

text \<open>
  \<^verbatim>\<open>POST /sessions/:id/send-message\<close> (api.js 223-256). \<open>sent\<close> is what
  \<^verbatim>\<open>await sock.sendMessage(...)\<close> gives (\<^verbatim>\<open>result.key.id\<close>), \<open>now\<close> is
  \<^verbatim>\<open>new Date().getTime()\<close>.
\<close>

definition api_post_send_message ::
  "session_id \<Rightarrow> string option \<Rightarrow> string option \<Rightarrow> string outcome \<Rightarrow> nat \<Rightarrow> sessions \<Rightarrow> result" where
  "api_post_send_message sessionId number msg sent now ss =
     (case ss sessionId of
        None \<Rightarrow> (Response 404 (ErrorBody SessaoNaoEncontrada), [], ss)
      | Some s \<Rightarrow>
          if \<not> isAuthenticated s then (Response 400 (ErrorBody SessaoNaoAutenticada), [], ss)
          else if \<not> truthy number \<or> \<not> truthy msg
          then (Response 400 (ErrorBody NumeroEMensagemObrigatorios), [], ss)
          else
            (case sock s of
               None \<Rightarrow> (Response 500 (ErrorBody (ErrorMessage TypeError)), [], ss)
             | Some h \<Rightarrow>
                 (let formattedNumber = strip_non_digits (the number) @ ''@s.whatsapp.net'';
                      call = [SendMessage h formattedNumber (the msg)]
                  in case sent of
                       Throws e \<Rightarrow> (Response 500 (ErrorBody (ErrorMessage e)), call, ss)
                     | Returns mid \<Rightarrow> (Response 200 (SentBody mid (int now)), call, ss))))"

text \<open>\<^verbatim>\<open>GET /sessions/:id/messages\<close> (api.js 302-314).\<close>

definition api_get_messages :: "session_id \<Rightarrow> sessions \<Rightarrow> result" where
  "api_get_messages sessionId ss =
     (case ss sessionId of
        None \<Rightarrow> (Response 404 (ErrorBody SessaoNaoEncontrada), [], ss)
      | Some s \<Rightarrow> (Response 200 (MessagesBody None (length (messages s)) (messages s)), [], ss))"

text \<open>\<^verbatim>\<open>GET /sessions/:id/status\<close> (api.js 317-331).\<close>

definition api_get_status :: "session_id \<Rightarrow> sessions \<Rightarrow> result" where
  "api_get_status sessionId ss =
     (case ss sessionId of
        None \<Rightarrow> (Response 404 (ErrorBody SessaoNaoEncontrada), [], ss)
      | Some s \<Rightarrow>
          (Response 200 (StatusBody
             \<lparr>st_isAuthenticated = isAuthenticated s, st_connected = None,
              st_qrAvailable = truthy (qrCode s), st_messageCount = length (messages s),
              st_user = user s, st_simulated = None,
              st_status = (if isAuthenticated s then ''ready'' else ''waiting_qr'')\<rparr>), [], ss))"

text \<open>
  \<^verbatim>\<open>POST /sessions/:id/restore\<close> (api.js 334-356). \<open>ended\<close> is what \<^verbatim>\<open>await sock.end()\<close>
  gives, \<open>started\<close> what \<^verbatim>\<open>await startWhatsAppSession(sessionId)\<close> gives.
\<close>

definition api_post_restore ::
  "session_id \<Rightarrow> unit outcome \<Rightarrow> handle outcome \<Rightarrow> sessions \<Rightarrow> result" where
  "api_post_restore sessionId ended started ss =
     (case ss sessionId of
        None \<Rightarrow> (Response 404 (ErrorBody SessaoNaoEncontrada), [], ss)
      | Some s \<Rightarrow>
          (let calls = (case sock s of Some h \<Rightarrow> [SockEnd h] | None \<Rightarrow> [])
           in case (if sock s \<noteq> None then ended else Returns ()) of
                Throws e \<Rightarrow> (Response 500 (ErrorBody (ErrorMessage e)), calls, ss)
              | Returns _ \<Rightarrow>
                  (case started of
                     Throws e \<Rightarrow>
                       (Response 500 (ErrorBody (ErrorMessage e)),
                        calls @ [StartTransport sessionId], ss)
                   | Returns h \<Rightarrow>
                       (case modify sessionId
                               (\<lambda>s. s\<lparr>sock := Some h, isAuthenticated := False, qrCode := None\<rparr>)
                               ss of
                          Throws e \<Rightarrow>
                            (Response 500 (ErrorBody (ErrorMessage e)),
                             calls @ [StartTransport sessionId], ss)
                        | Returns ss1 \<Rightarrow>
                            (Response 200 (SuccessBody None),
                             calls @ [StartTransport sessionId], ss1)))))"

text \<open>
  \<^verbatim>\<open>DELETE /sessions/:id\<close> (api.js 359-382). \<open>ended\<close> is what \<^verbatim>\<open>await sock.end()\<close> gives,
  \<open>dir_exists\<close> is \<^verbatim>\<open>fs.existsSync(sessionPath)\<close>, \<open>removed\<close> what \<^verbatim>\<open>fs.rmSync\<close> gives.
\<close>

definition api_delete_session ::
  "session_id \<Rightarrow> unit outcome \<Rightarrow> bool \<Rightarrow> unit outcome \<Rightarrow> sessions \<Rightarrow> result" where
  "api_delete_session sessionId ended dir_exists removed ss =
     (case ss sessionId of
        None \<Rightarrow> (Response 404 (ErrorBody SessaoNaoEncontrada), [], ss)
      | Some s \<Rightarrow>
          (let calls = (case sock s of Some h \<Rightarrow> [SockEnd h] | None \<Rightarrow> [])
           in case (if sock s \<noteq> None then ended else Returns ()) of
                Throws e \<Rightarrow> (Response 500 (ErrorBody (ErrorMessage e)), calls, ss)
              | Returns _ \<Rightarrow>
                  (case (if dir_exists then removed else Returns ()) of
                     Throws e \<Rightarrow>
                       (Response 500 (ErrorBody (ErrorMessage e)),
                        calls @ [RmSessionDir sessionId], ss)
                   | Returns _ \<Rightarrow>
                       (Response 200 (SuccessBody None),
                        calls @ (if dir_exists then [RmSessionDir sessionId] else []),
                        ss(sessionId := None)))))"

subsection \<open>The hybrid variant: the first file of \<^verbatim>\<open>src/unnamed/part_000\<close>\<close>

text \<open>
  \<^verbatim>\<open>startWhatsAppSession\<close> (part_000 31-164). \<open>created\<close> is what \<^verbatim>\<open>new Client(...)\<close> gives,
  \<open>initialized\<close> what \<^verbatim>\<open>await client.initialize()\<close> gives. When either throws, the catch
  block replaces the session by a simulated one; \<open>now\<close> and \<open>rnd\<close> are \<^verbatim>\<open>Date.now()\<close> and
  \<^verbatim>\<open>Math.random().toString(36).substr(2, 9)\<close> there, \<open>dataurl\<close> is what
  \<^verbatim>\<open>await qrcode.toDataURL(testQR)\<close> gives (an error thrown there leaves the function).
\<close>

definition rf_simulated_session :: session where
  "rf_simulated_session = \<lparr>isAuthenticated = False, qrCode = None, messages = [], user = None,
     sock = None, client = None, connected = False, simulated = True, qrRaw = None\<rparr>"

definition rf_fallback ::
  "session_id \<Rightarrow> nat \<Rightarrow> string \<Rightarrow> string outcome \<Rightarrow> effect list \<Rightarrow> sessions \<Rightarrow>
   handle option outcome \<times> effect list \<times> sessions" where
  "rf_fallback sessionId now rnd dataurl calls ss =
     (let ss1 = ss(sessionId \<mapsto> rf_simulated_session);
          testQR = ''2@'' @ dec now @ rnd
      in case dataurl of
           Throws e \<Rightarrow> (Throws e, calls, ss1)
         | Returns u \<Rightarrow>
             (case modify sessionId (\<lambda>s. s\<lparr>qrCode := Some u, qrRaw := Some testQR\<rparr>) ss1 of
                Throws e \<Rightarrow> (Throws e, calls, ss1)
              | Returns ss2 \<Rightarrow>
                  (Returns None, calls @ [SetTimeout (SimulatedAuth sessionId) 30000], ss2)))"

definition rf_startWhatsAppSession ::
  "session_id \<Rightarrow> handle outcome \<Rightarrow> unit outcome \<Rightarrow> nat \<Rightarrow> string \<Rightarrow> string outcome \<Rightarrow> sessions \<Rightarrow>
   handle option outcome \<times> effect list \<times> sessions" where
  "rf_startWhatsAppSession sessionId created initialized now rnd dataurl ss =
     (case created of
        Throws e \<Rightarrow> rf_fallback sessionId now rnd dataurl [] ss
      | Returns h \<Rightarrow>
          (let ss1 = ss(sessionId \<mapsto> new_session\<lparr>client := Some h\<rparr>)
           in case initialized of
                Throws e \<Rightarrow> rf_fallback sessionId now rnd dataurl [ClientInitialize h] ss1
              | Returns _ \<Rightarrow> (Returns (Some h), [ClientInitialize h], ss1)))"

text \<open>
  The listeners registered on the client (part_000 61-128). \<open>dataurl\<close> is what
  \<^verbatim>\<open>await qrcode.toDataURL(qr)\<close> gives.
\<close>

definition rf_on_qr :: "session_id \<Rightarrow> string \<Rightarrow> string outcome \<Rightarrow> sessions \<Rightarrow> listener_result" where
  "rf_on_qr sessionId qr_raw dataurl ss =
     (case dataurl of
        Throws e \<Rightarrow> (Uncaught e, [], ss)
      | Returns u \<Rightarrow>
          (case modify sessionId (\<lambda>s. s\<lparr>qrCode := Some u, qrRaw := Some qr_raw\<rparr>) ss of
             Throws e \<Rightarrow> (Uncaught e, [], ss)
           | Returns ss1 \<Rightarrow> (Done, [], ss1)))"

definition rf_on_ready :: "session_id \<Rightarrow> sessions \<Rightarrow> listener_result" where
  "rf_on_ready sessionId ss =
     (case modify sessionId
             (\<lambda>s. s\<lparr>isAuthenticated := True, connected := True, qrCode := None\<rparr>) ss of
        Throws e \<Rightarrow> (Uncaught e, [], ss)
      | Returns ss1 \<Rightarrow> (Done, [], ss1))"

definition rf_on_authenticated :: "session_id \<Rightarrow> sessions \<Rightarrow> listener_result" where
  "rf_on_authenticated sessionId ss =
     (case modify sessionId (\<lambda>s. s\<lparr>isAuthenticated := True\<rparr>) ss of
        Throws e \<Rightarrow> (Uncaught e, [], ss)
      | Returns ss1 \<Rightarrow> (Done, [], ss1))"

text \<open>The whatsapp-web.js message as the listener of \<^verbatim>\<open>message\<close> reads it.\<close>

record wweb_msg =
  id_serialized :: string
  msg_from :: string
  msg_to :: string
  msg_body :: string
  msg_timestamp :: int
  hasMedia :: bool
  msg_type :: string

record wweb_media =
  media_data :: string
  media_mimetype :: string
  media_filename :: "string option"

text \<open>\<open>downloaded\<close> is what \<^verbatim>\<open>await msg.downloadMedia()\<close> gives; an error there is logged.\<close>

definition rf_messageData :: "wweb_msg \<Rightarrow> wweb_media outcome \<Rightarrow> message_data" where
  "rf_messageData msg downloaded =
     \<lparr>m_id = id_serialized msg, m_from = msg_from msg, m_to = Some (msg_to msg),
      m_pushName = None, m_timestamp = msg_timestamp msg, m_body = msg_body msg,
      m_hasMedia = Some (hasMedia msg), m_type = Some (msg_type msg),
      m_media = (if hasMedia msg
                 then (case downloaded of
                         Returns md \<Rightarrow>
                           Some (RfMedia (media_data md) (media_mimetype md) (media_filename md))
                       | Throws e \<Rightarrow> None)
                 else None)\<rparr>"

definition rf_on_message ::
  "session_id \<Rightarrow> wweb_msg \<Rightarrow> wweb_media outcome \<Rightarrow> sessions \<Rightarrow> listener_result" where
  "rf_on_message sessionId msg downloaded ss =
     (case modify sessionId (push_message (rf_messageData msg downloaded)) ss of
        Throws e \<Rightarrow> (Uncaught e, [], ss)
      | Returns ss1 \<Rightarrow> (Done, [], ss1))"

definition rf_on_disconnected :: "session_id \<Rightarrow> handle \<Rightarrow> sessions \<Rightarrow> listener_result" where
  "rf_on_disconnected sessionId h ss =
     (case modify sessionId (\<lambda>s. s\<lparr>connected := False, isAuthenticated := False\<rparr>) ss of
        Throws e \<Rightarrow> (Uncaught e, [], ss)
      | Returns ss1 \<Rightarrow> (Done, [SetTimeout (Reconnect sessionId h) 5000], ss1))"

text \<open>What a timer does when it fires.\<close>

fun rf_on_timer :: "timer \<Rightarrow> sessions \<Rightarrow> listener_result" where
  "rf_on_timer (SimulatedAuth sessionId) ss =
     (case ss sessionId of
        None \<Rightarrow> (Done, [], ss)
      | Some s \<Rightarrow>
          if simulated s
          then (Done, [], ss(sessionId \<mapsto> s\<lparr>isAuthenticated := True, connected := True\<rparr>))
          else (Done, [], ss))"
| "rf_on_timer (Reconnect sessionId h) ss =
     (case ss sessionId of
        None \<Rightarrow> (Done, [], ss)
      | Some s \<Rightarrow> (Done, [ClientInitialize h], ss))"
| "rf_on_timer (Reinitialize sessionId) ss =
     (case ss sessionId of
        None \<Rightarrow> (Uncaught TypeError, [], ss)
      | Some s \<Rightarrow>
          (case client s of
             None \<Rightarrow> (Uncaught TypeError, [], ss)
           | Some h \<Rightarrow> (Done, [ClientInitialize h], ss)))"

text \<open>\<^verbatim>\<open>POST /sessions/start\<close> (part_000 167-196).\<close>

definition rf_post_sessions_start ::
  "string option \<Rightarrow> nat \<Rightarrow> handle outcome \<Rightarrow> unit outcome \<Rightarrow> string \<Rightarrow> string outcome \<Rightarrow>
   sessions \<Rightarrow> result" where
  "rf_post_sessions_start body_id now created initialized rnd dataurl ss =
     (let sessionId = request_session_id body_id now
      in if ss sessionId \<noteq> None then (Response 200 (StartedBody sessionId True), [], ss)
         else
           (case rf_startWhatsAppSession sessionId created initialized now rnd dataurl ss of
              (Throws e, calls, ss1) \<Rightarrow> (Response 500 (ErrorBody (ErrorMessage e)), calls, ss1)
            | (Returns _, calls, ss1) \<Rightarrow> (Response 200 (StartedBody sessionId False), calls, ss1)))"

text \<open>
  The same request in two steps, for a start whose \<^verbatim>\<open>new Client(...)\<close> returned \<open>h\<close>. The
  first runs the handler up to \<^verbatim>\<open>await client.initialize()\<close> (part_000 167-180 and 32-131):
  it answers at once when the id resolves, and otherwise writes the session, calls
  \<^verbatim>\<open>initialize()\<close> and sends nothing yet. The second runs the rest once the awaited promise
  has settled, on the dictionary of that moment (part_000 133-163 and 182-195): when
  \<^verbatim>\<open>initialize()\<close> has thrown, the catch block writes the simulated session whether or not
  the id still resolves.
\<close>

definition rf_post_sessions_start_begin ::
  "string option \<Rightarrow> nat \<Rightarrow> handle \<Rightarrow> sessions \<Rightarrow> response option \<times> effect list \<times> sessions" where
  "rf_post_sessions_start_begin body_id now h ss =
     (let sessionId = request_session_id body_id now
      in if ss sessionId \<noteq> None then (Some (Response 200 (StartedBody sessionId True)), [], ss)
         else (None, [ClientInitialize h], ss(sessionId \<mapsto> new_session\<lparr>client := Some h\<rparr>)))"

definition rf_post_sessions_start_settle ::
  "session_id \<Rightarrow> unit outcome \<Rightarrow> nat \<Rightarrow> string \<Rightarrow> string outcome \<Rightarrow> sessions \<Rightarrow> result" where
  "rf_post_sessions_start_settle sessionId initialized now rnd dataurl ss =
     (case initialized of
        Returns _ \<Rightarrow> (Response 200 (StartedBody sessionId False), [], ss)
      | Throws e \<Rightarrow>
          (case rf_fallback sessionId now rnd dataurl [] ss of
             (Throws e', calls, ss1) \<Rightarrow> (Response 500 (ErrorBody (ErrorMessage e')), calls, ss1)
           | (Returns _, calls, ss1) \<Rightarrow> (Response 200 (StartedBody sessionId False), calls, ss1)))"

text \<open>\<^verbatim>\<open>GET /sessions/:id/qr\<close> (part_000 213-258): the responses sent, in order.\<close>

definition rf_get_qr :: "session_id \<Rightarrow> (nat \<Rightarrow> string option) \<Rightarrow> sessions \<Rightarrow> response list" where
  "rf_get_qr sessionId obs ss =
     (case ss sessionId of
        None \<Rightarrow> [Response 404 (ErrorBody SessaoNaoEncontrada)]
      | Some session \<Rightarrow>
          if isAuthenticated session
          then [Response 200 (QrAuthenticated None (Some (simulated session)))]
          else if truthy (qrCode session)
          then [Response 200 (QrWaiting (the (qrCode session)) (Some (simulated session)))]
          else checkQR (\<lambda>q. Response 200 (QrWaiting q (Some (simulated session))))
                 (Response 200 (QrGenerating (simulated session))) obs 0)"

text \<open>
  \<^verbatim>\<open>POST /sessions/:id/send-message\<close> (part_000 261-310). \<open>sent\<close> is what
  \<^verbatim>\<open>await client.sendMessage(...)\<close> gives (\<^verbatim>\<open>result.id._serialized\<close> and
  \<^verbatim>\<open>result.timestamp\<close>); \<open>now\<close> and \<open>rnd\<close> are \<^verbatim>\<open>Date.now()\<close> and the random suffix of a
  simulated message id.
\<close>

definition ClienteNaoDisponivel :: string where
  "ClienteNaoDisponivel = ''Cliente nao disponivel''"

definition rf_post_send_message ::
  "session_id \<Rightarrow> string option \<Rightarrow> string option \<Rightarrow> (string \<times> int) outcome \<Rightarrow> nat \<Rightarrow> string \<Rightarrow>
   sessions \<Rightarrow> result" where
  "rf_post_send_message sessionId number msg sent now rnd ss =
     (case ss sessionId of
        None \<Rightarrow> (Response 404 (ErrorBody SessaoNaoEncontrada), [], ss)
      | Some s \<Rightarrow>
          if \<not> truthy number \<or> \<not> truthy msg
          then (Response 400 (ErrorBody NumeroEMensagemObrigatorios), [], ss)
          else if simulated s
          then (Response 200 (SentBody (''sim_'' @ dec now @ ''_'' @ rnd) (int now)), [], ss)
          else if \<not> isAuthenticated s
          then (Response 400 (ErrorBody SessaoNaoAutenticada), [], ss)
          else
            (case client s of
               None \<Rightarrow> (Response 500 (ErrorBody (ErrorMessage ClienteNaoDisponivel)), [], ss)
             | Some h \<Rightarrow>
                 (let formattedNumber = strip_non_digits (the number) @ ''@c.us'';
                      call = [SendMessage h formattedNumber (the msg)]
                  in case sent of
                       Throws e \<Rightarrow> (Response 500 (ErrorBody (ErrorMessage e)), call, ss)
                     | Returns (mid, ts) \<Rightarrow> (Response 200 (SentBody mid ts), call, ss))))"

text \<open>\<^verbatim>\<open>GET /sessions/:id/messages\<close> (part_000 349-386); \<open>now\<close> is \<^verbatim>\<open>Date.now()\<close>.\<close>

definition rf_example_messages :: "nat \<Rightarrow> message_data list" where
  "rf_example_messages now =
     [\<lparr>m_id = ''sim_1'', m_from = ''5511999999999@c.us'', m_to = Some ''me'', m_pushName = None,
       m_timestamp = int now - 3600000, m_body = ''Esta e uma mensagem simulada para testes'',
       m_hasMedia = Some False, m_type = Some ''chat'', m_media = None\<rparr>,
      \<lparr>m_id = ''sim_2'', m_from = ''5511888888888@c.us'', m_to = Some ''me'', m_pushName = None,
       m_timestamp = int now - 1800000, m_body = ''No Render Free, as mensagens sao simuladas'',
       m_hasMedia = Some False, m_type = Some ''chat'', m_media = None\<rparr>]"

definition rf_get_messages :: "session_id \<Rightarrow> nat \<Rightarrow> sessions \<Rightarrow> result" where
  "rf_get_messages sessionId now ss =
     (case ss sessionId of
        None \<Rightarrow> (Response 404 (ErrorBody SessaoNaoEncontrada), [], ss)
      | Some s \<Rightarrow>
          (let s1 = (if simulated s \<and> length (messages s) = 0
                     then s\<lparr>messages := rf_example_messages now\<rparr> else s)
           in (Response 200 (MessagesBody (Some (simulated s1)) (length (messages s1)) (messages s1)),
               [], ss(sessionId \<mapsto> s1))))"

text \<open>\<^verbatim>\<open>GET /sessions/:id/status\<close> (part_000 389-408).\<close>

definition rf_get_status :: "session_id \<Rightarrow> sessions \<Rightarrow> result" where
  "rf_get_status sessionId ss =
     (case ss sessionId of
        None \<Rightarrow> (Response 404 (ErrorBody SessaoNaoEncontrada), [], ss)
      | Some s \<Rightarrow>
          (Response 200 (StatusBody
             \<lparr>st_isAuthenticated = isAuthenticated s, st_connected = Some (connected s),
              st_qrAvailable = truthy (qrCode s), st_messageCount = length (messages s),
              st_user = None, st_simulated = Some (simulated s),
              st_status = (if isAuthenticated s then ''authenticated''
                           else if truthy (qrCode s) then ''waiting_qr'' else ''connecting'')\<rparr>),
           [], ss))"

text \<open>
  \<^verbatim>\<open>POST /sessions/:id/restore\<close> (part_000 411-443). \<open>destroyed\<close> is what the call
  \<^verbatim>\<open>client.destroy()\<close>, which is not awaited, gives before the handler goes on.
\<close>

definition rf_post_restore :: "session_id \<Rightarrow> unit outcome \<Rightarrow> sessions \<Rightarrow> result" where
  "rf_post_restore sessionId destroyed ss =
     (case ss sessionId of
        None \<Rightarrow> (Response 404 (ErrorBody SessaoNaoEncontrada), [], ss)
      | Some s \<Rightarrow>
          (let s1 = s\<lparr>isAuthenticated := False, qrCode := None, connected := False\<rparr>;
               ss1 = ss(sessionId \<mapsto> s1)
           in case client s1 of
                None \<Rightarrow> (Response 200 (SuccessBody (Some (simulated s1))), [], ss1)
              | Some h \<Rightarrow>
                  (case destroyed of
                     Throws e \<Rightarrow>
                       (Response 500 (ErrorBody (ErrorMessage e)), [ClientDestroy h], ss1)
                   | Returns _ \<Rightarrow>
                       (Response 200 (SuccessBody (Some (simulated s1))),
                        [ClientDestroy h, SetTimeout (Reinitialize sessionId) 1000], ss1))))"

text \<open>
  \<^verbatim>\<open>DELETE /sessions/:id\<close> (part_000 446-463). \<open>destroyed\<close> is what
  \<^verbatim>\<open>await client.destroy()\<close> gives.
\<close>

definition rf_delete_session :: "session_id \<Rightarrow> unit outcome \<Rightarrow> sessions \<Rightarrow> result" where
  "rf_delete_session sessionId destroyed ss =
     (case ss sessionId of
        None \<Rightarrow> (Response 404 (ErrorBody SessaoNaoEncontrada), [], ss)
      | Some s \<Rightarrow>
          (let calls = (case client s of Some h \<Rightarrow> [ClientDestroy h] | None \<Rightarrow> [])
           in case (if client s \<noteq> None then destroyed else Returns ()) of
                Throws e \<Rightarrow> (Response 500 (ErrorBody (ErrorMessage e)), calls, ss)
              | Returns _ \<Rightarrow> (Response 200 (SuccessBody None), calls, ss(sessionId := None))))"

subsection \<open>Lookups through the prototype\<close>

text \<open>
  \<^verbatim>\<open>sessions\<close> is a plain object (\<^verbatim>\<open>let sessions = {}\<close>), so \<^verbatim>\<open>sessions[id]\<close> looks an id
  up among the dictionary's own keys and then among the members of \<^verbatim>\<open>Object.prototype\<close>.
  Read as a session, an inherited member (a function, or the prototype itself for
  \<^verbatim>\<open>__proto__\<close>) has none of the fields: each reads \<^verbatim>\<open>undefined\<close>, which the record holds as
  \<open>False\<close>, \<open>None\<close> or \<open>[]\<close>.
\<close>

definition object_prototype_members :: "string list" where
  "object_prototype_members =
     [''constructor'', ''__defineGetter__'', ''__defineSetter__'', ''hasOwnProperty'',
      ''__lookupGetter__'', ''__lookupSetter__'', ''isPrototypeOf'', ''propertyIsEnumerable'',
      ''toString'', ''valueOf'', ''__proto__'', ''toLocaleString'']"

definition inherited_member :: session where
  "inherited_member = \<lparr>isAuthenticated = False, qrCode = None, messages = [], user = None,
     sock = None, client = None, connected = False, simulated = False, qrRaw = None\<rparr>"

text \<open>The value of \<^verbatim>\<open>sessions[sid]\<close>, for the dictionary with the own keys \<open>ss\<close>.\<close>

definition sessions_at :: "sessions \<Rightarrow> session_id \<Rightarrow> session option" where
  "sessions_at ss sid =
     (case ss sid of
        Some s \<Rightarrow> Some s
      | None \<Rightarrow> if sid \<in> set object_prototype_members then Some inherited_member else None)"

text \<open>
  A handler that only reads the dictionary answers, for any id, what its definition above
  answers on \<open>sessions_at ss\<close>. The destroy handlers also write: their guard and their
  reads go through the lookup, and their \<^verbatim>\<open>delete sessions[sessionId]\<close>, reached exactly
  when they answer 200, removes an own key and nothing else (api.js 359-382,
  part_000 446-463).
\<close>

definition api_delete_session_any_id ::
  "session_id \<Rightarrow> unit outcome \<Rightarrow> bool \<Rightarrow> unit outcome \<Rightarrow> sessions \<Rightarrow> result" where
  "api_delete_session_any_id sessionId ended dir_exists removed ss =
     (case api_delete_session sessionId ended dir_exists removed (sessions_at ss) of
        (r, calls, _) \<Rightarrow> (r, calls, if status r = 200 then ss(sessionId := None) else ss))"

definition rf_delete_session_any_id :: "session_id \<Rightarrow> unit outcome \<Rightarrow> sessions \<Rightarrow> result" where
  "rf_delete_session_any_id sessionId destroyed ss =
     (case rf_delete_session sessionId destroyed (sessions_at ss) of
        (r, calls, _) \<Rightarrow> (r, calls, if status r = 200 then ss(sessionId := None) else ss))"

subsection \<open>Runs of the two servers\<close>

text \<open>
  Everything that can happen to the dictionary of \<^verbatim>\<open>api.js\<close>: a request to one of the
  routes above or an event of a socket. The server starts with \<^verbatim>\<open>sessions = {}\<close>.
\<close>

datatype api_event =
    ApiStart "string option" nat "handle outcome"
  | ApiSendMessage session_id "string option" "string option" "string outcome" nat
  | ApiGetMessages session_id
  | ApiGetStatus session_id
  | ApiRestore session_id "unit outcome" "handle outcome"
  | ApiDelete session_id "unit outcome" bool "unit outcome"
  | ApiConnectionUpdate session_id "wa_user option" bool "unit outcome" update
  | ApiMessagesUpsert session_id "wa_msg list"

fun api_step :: "api_event \<Rightarrow> sessions \<Rightarrow> sessions" where
  "api_step (ApiStart body_id now started) ss = snd (snd (api_post_sessions_start body_id now started ss))"
| "api_step (ApiSendMessage sid number msg sent now) ss =
     snd (snd (api_post_send_message sid number msg sent now ss))"
| "api_step (ApiGetMessages sid) ss = snd (snd (api_get_messages sid ss))"
| "api_step (ApiGetStatus sid) ss = snd (snd (api_get_status sid ss))"
| "api_step (ApiRestore sid ended started) ss = snd (snd (api_post_restore sid ended started ss))"
| "api_step (ApiDelete sid ended dir_exists removed) ss =
     snd (snd (api_delete_session sid ended dir_exists removed ss))"
| "api_step (ApiConnectionUpdate sid sock_user dir_exists removed upd) ss =
     snd (snd (api_on_connection_update sid sock_user dir_exists removed upd ss))"
| "api_step (ApiMessagesUpsert sid ms) ss = snd (snd (api_on_messages_upsert sid ms ss))"

definition api_run :: "api_event list \<Rightarrow> sessions \<Rightarrow> sessions" where
  "api_run evs ss = fold api_step evs ss"

text \<open>
  The same for the hybrid variant, whose timers fire as events of their own. A start
  request is one event when nothing comes between its two steps, and the two events
  \<open>RfStartBegin\<close> and \<open>RfStartSettle\<close> otherwise.
\<close>

datatype rf_event =
    RfStart "string option" nat "handle outcome" "unit outcome" string "string outcome"
  | RfStartBegin "string option" nat handle
  | RfStartSettle session_id "unit outcome" nat string "string outcome"
  | RfSendMessage session_id "string option" "string option" "(string \<times> int) outcome" nat string
  | RfGetMessages session_id nat
  | RfGetStatus session_id
  | RfRestore session_id "unit outcome"
  | RfDelete session_id "unit outcome"
  | RfQr session_id string "string outcome"
  | RfReady session_id
  | RfAuthenticated session_id
  | RfMessage session_id wweb_msg "wweb_media outcome"
  | RfDisconnected session_id handle
  | RfTimer timer

fun rf_step :: "rf_event \<Rightarrow> sessions \<Rightarrow> sessions" where
  "rf_step (RfStart body_id now created initialized rnd dataurl) ss =
     snd (snd (rf_post_sessions_start body_id now created initialized rnd dataurl ss))"
| "rf_step (RfStartBegin body_id now h) ss =
     snd (snd (rf_post_sessions_start_begin body_id now h ss))"
| "rf_step (RfStartSettle sid initialized now rnd dataurl) ss =
     snd (snd (rf_post_sessions_start_settle sid initialized now rnd dataurl ss))"
| "rf_step (RfSendMessage sid number msg sent now rnd) ss =
     snd (snd (rf_post_send_message sid number msg sent now rnd ss))"
| "rf_step (RfGetMessages sid now) ss = snd (snd (rf_get_messages sid now ss))"
| "rf_step (RfGetStatus sid) ss = snd (snd (rf_get_status sid ss))"
| "rf_step (RfRestore sid destroyed) ss = snd (snd (rf_post_restore sid destroyed ss))"
| "rf_step (RfDelete sid destroyed) ss = snd (snd (rf_delete_session sid destroyed ss))"
| "rf_step (RfQr sid qr_raw dataurl) ss = snd (snd (rf_on_qr sid qr_raw dataurl ss))"
| "rf_step (RfReady sid) ss = snd (snd (rf_on_ready sid ss))"
| "rf_step (RfAuthenticated sid) ss = snd (snd (rf_on_authenticated sid ss))"
| "rf_step (RfMessage sid msg downloaded) ss = snd (snd (rf_on_message sid msg downloaded ss))"
| "rf_step (RfDisconnected sid h) ss = snd (snd (rf_on_disconnected sid h ss))"
| "rf_step (RfTimer t) ss = snd (snd (rf_on_timer t ss))"

definition rf_run :: "rf_event list \<Rightarrow> sessions \<Rightarrow> sessions" where
  "rf_run evs ss = fold rf_step evs ss"

text \<open>A property of every session of the dictionary.\<close>

definition all_sessions :: "(session \<Rightarrow> bool) \<Rightarrow> sessions \<Rightarrow> bool" where
  "all_sessions P ss = (\<forall>sid s. ss sid = Some s \<longrightarrow> P s)"

text \<open>The \<^verbatim>\<open>messageCount\<close> of a status response.\<close>

definition messageCount_of :: "response \<Rightarrow> nat option" where
  "messageCount_of r = (case body r of StatusBody b \<Rightarrow> Some (st_messageCount b) | _ \<Rightarrow> None)"

text \<open>
  What a sequence of \<^verbatim>\<open>messages.upsert\<close> events appends in \<^verbatim>\<open>api.js\<close> (an event whose
  first message has no content appends nothing), and the \<^verbatim>\<open>message\<close> events of the
  hybrid variant with what they append.
\<close>

fun api_appended :: "wa_msg list list \<Rightarrow> message_data list" where
  "api_appended [] = []"
| "api_appended (ms # rest) =
     (case ms of
        [] \<Rightarrow> []
      | msg # _ \<Rightarrow> (case message msg of None \<Rightarrow> [] | Some c \<Rightarrow> [api_messageData msg c])) @
     api_appended rest"

definition rf_message_events ::
  "session_id \<Rightarrow> (wweb_msg \<times> wweb_media outcome) list \<Rightarrow> rf_event list" where
  "rf_message_events sid ws = map (\<lambda>(msg, downloaded). RfMessage sid msg downloaded) ws"

definition rf_appended :: "(wweb_msg \<times> wweb_media outcome) list \<Rightarrow> message_data list" where
  "rf_appended ws = map (\<lambda>(msg, downloaded). rf_messageData msg downloaded) ws"

subsection \<open>Example states\<close>

text \<open>
  The dictionary after one start request for \<^verbatim>\<open>s1\<close>: on \<^verbatim>\<open>api.js\<close>, on the hybrid variant
  with a browser, and on the hybrid variant where \<^verbatim>\<open>client.initialize()\<close> throws and the
  session becomes a simulated one. \<open>never_seen\<close> is a pairing payload that stays absent
  during a whole poll.
\<close>

definition api_started :: sessions where
  "api_started = api_run [ApiStart (Some ''s1'') 0 (Returns 1)] Map.empty"

definition rf_started :: sessions where
  "rf_started =
     rf_run [RfStart (Some ''s1'') 0 (Returns 1) (Returns ()) ''abc'' (Returns ''data:x'')] Map.empty"

definition rf_started_simulated :: sessions where
  "rf_started_simulated =
     rf_run [RfStart (Some ''s1'') 0 (Returns 1) (Throws ''no browser'') ''abc''
               (Returns ''data:x'')] Map.empty"

definition never_seen :: "nat \<Rightarrow> string option" where
  "never_seen k = None"

definition api_example_message :: message_data where
  "api_example_message = \<lparr>m_id = ''m1'', m_from = ''5511999999999@s.whatsapp.net'',
     m_to = None, m_pushName = None, m_timestamp = 1, m_body = ''oi'', m_hasMedia = None,
     m_type = Some ''conversation'', m_media = None\<rparr>"

text \<open>The dictionary of \<^verbatim>\<open>api.js\<close> after \<^verbatim>\<open>s1\<close> was started and received one text message.\<close>

definition api_with_message :: sessions where
  "api_with_message =
     api_run [ApiStart (Some ''s1'') 0 (Returns 1),
              ApiMessagesUpsert ''s1''
                [\<lparr>key_id = ''m1'', key_remoteJid = ''5511999999999@s.whatsapp.net'',
                  pushName = None, messageTimestamp = 1,
                  message = Some \<lparr>conversation = Some ''oi'', extendedTextMessage_text = None,
                    imageMessage = None, videoMessage = None, audioMessage = None,
                    first_key = Some ''conversation''\<rparr>\<rparr>]] Map.empty"

text \<open>A whatsapp-web.js message without media whose timestamp is its number.\<close>

definition numbered_msg :: "nat \<Rightarrow> wweb_msg \<times> wweb_media outcome" where
  "numbered_msg i =
     (\<lparr>id_serialized = ''m'', msg_from = ''5511999999999@c.us'', msg_to = ''me'',
       msg_body = ''oi'', msg_timestamp = int i, hasMedia = False, msg_type = ''chat''\<rparr>,
      Throws ''no media'')"

text \<open>
  The dictionary of the hybrid variant after \<^verbatim>\<open>s1\<close> was started, showed a pairing
  payload, was reported ready and received message number 7.
\<close>

definition rf_paired :: sessions where
  "rf_paired =
     rf_run [RfQr ''s1'' ''qr-1'' (Returns ''data:qr-1''), RfReady ''s1'',
             RfMessage ''s1'' (fst (numbered_msg 7)) (snd (numbered_msg 7))] rf_started"

section \<open>Properties\<close>

subsection \<open>The example states\<close>

lemma api_started_eq: "api_started = [''s1'' \<mapsto> new_session\<lparr>sock := Some 1\<rparr>]"
  by (simp add: api_started_def api_run_def api_post_sessions_start_def request_session_id_def
        modify_def Let_def)

lemma rf_started_eq: "rf_started = [''s1'' \<mapsto> new_session\<lparr>client := Some 1\<rparr>]"
  by (simp add: rf_started_def rf_run_def rf_post_sessions_start_def request_session_id_def
        rf_startWhatsAppSession_def Let_def)

lemma rf_started_simulated_eq:
  "rf_started_simulated =
     [''s1'' \<mapsto> rf_simulated_session\<lparr>qrCode := Some ''data:x'', qrRaw := Some ''2@0abc''\<rparr>]"
  by (simp add: rf_started_simulated_def rf_run_def rf_post_sessions_start_def
        request_session_id_def rf_startWhatsAppSession_def rf_fallback_def modify_def Let_def
        dec.simps)

lemma api_with_message_eq:
  "api_with_message =
     [''s1'' \<mapsto> new_session\<lparr>sock := Some 1, messages := [api_example_message]\<rparr>]"
  by (simp add: api_with_message_def api_run_def api_post_sessions_start_def
        request_session_id_def modify_def Let_def api_on_messages_upsert_def
        api_messageData_def api_media_def push_message_def new_session_def
        api_example_message_def)

lemma rf_paired_eq:
  "rf_paired =
     [''s1'' \<mapsto> new_session\<lparr>client := Some 1, qrRaw := Some ''qr-1'', isAuthenticated := True,
        connected := True,
        messages := [rf_messageData (fst (numbered_msg 7)) (snd (numbered_msg 7))]\<rparr>]"
  by (simp add: rf_paired_def rf_started_eq rf_run_def rf_on_qr_def rf_on_ready_def
        rf_on_message_def modify_def push_message_def Let_def new_session_def)

subsection \<open>Creating a session\<close>

text \<open>
  Claim C10. In \<^verbatim>\<open>api.js\<close>, when a start request names an id that does not resolve and
  \<^verbatim>\<open>startWhatsAppSession\<close> throws, the entry the handler had just written is deleted
  before the error response is sent: the handler answers 500 with the error's message and
  leaves the dictionary as it found it, so the id still does not resolve.
\<close>

theorem api_start_failure_restores_registry:
  "ss (request_session_id body_id now) = None \<Longrightarrow>
   api_post_sessions_start body_id now (Throws e) ss =
     (Response 500 (ErrorBody (ErrorMessage e)),
      [StartTransport (request_session_id body_id now)], ss)"
  by (simp add: api_post_sessions_start_def Let_def fun_upd_idem)

theorem api_start_failure_restores_registry_witness:
  "api_started (request_session_id (Some ''s2'') 5) = None \<and>
   api_post_sessions_start (Some ''s2'') 5 (Throws ''boom'') api_started =
     (Response 500 (ErrorBody (ErrorMessage ''boom'')),
      [StartTransport (request_session_id (Some ''s2'') 5)], api_started)"
  using api_start_failure_restores_registry [of api_started "Some ''s2''" 5 "''boom''"]
  by (simp add: api_started_eq request_session_id_def)

text \<open>
  Claim C5. A start request whose id already resolves changes nothing: \<^verbatim>\<open>api.js\<close> answers
  400 "Sessao ja existe", the hybrid variant answers 200 with \<^verbatim>\<open>existing: true\<close>, neither
  calls the transport, and the dictionary (hence every field of the existing session) is
  the one before the call.
\<close>

theorem start_existing_changes_nothing:
  "ss (request_session_id body_id now) = Some s \<Longrightarrow>
   api_post_sessions_start body_id now started ss =
     (Response 400 (ErrorBody SessaoJaExiste), [], ss) \<and>
   rf_post_sessions_start body_id now created initialized rnd dataurl ss =
     (Response 200 (StartedBody (request_session_id body_id now) True), [], ss)"
  by (simp add: api_post_sessions_start_def rf_post_sessions_start_def Let_def)

theorem start_existing_changes_nothing_witness:
  "api_started (request_session_id (Some ''s1'') 9) = Some (new_session\<lparr>sock := Some 1\<rparr>) \<and>
   api_post_sessions_start (Some ''s1'') 9 (Returns 2) api_started =
     (Response 400 (ErrorBody SessaoJaExiste), [], api_started) \<and>
   rf_post_sessions_start (Some ''s1'') 9 (Returns 2) (Returns ()) ''r'' (Returns ''u'') api_started =
     (Response 200 (StartedBody (request_session_id (Some ''s1'') 9) True), [], api_started)"
  using start_existing_changes_nothing
    [of api_started "Some ''s1''" 9 "new_session\<lparr>sock := Some 1\<rparr>" "Returns 2" "Returns 2"
        "Returns ()" "''r''" "Returns ''u''"]
  by (simp add: api_started_eq request_session_id_def)

subsection \<open>Waiting for the pairing payload\<close>

text \<open>A poll that never sees a payload sends the timeout response, once, at the 31st run.\<close>

lemma checkQR_never:
  "attempts \<le> 30 \<Longrightarrow> (\<forall>k. attempts < k \<and> k \<le> 31 \<longrightarrow> \<not> truthy (obs k)) \<Longrightarrow>
   checkQR found timeout obs attempts = [timeout]"
proof (induction found timeout obs attempts rule: checkQR.induct)
  case (1 found timeout obs attempts)
  have ns: "\<not> truthy (obs (attempts + 1))" using "1.prems" by simp
  show ?case
  proof (cases "attempts + 1 > 30")
    case True
    then show ?thesis using ns by (subst checkQR.simps) (simp add: Let_def)
  next
    case False
    then have "checkQR found timeout obs (attempts + 1) = [timeout]"
      using "1.IH"[OF refl refl refl _ ns] "1.prems" by simp
    then show ?thesis using ns False by (subst checkQR.simps) (simp add: Let_def)
  qed
qed

text \<open>
  Claim C3, as the claim states it, fails on \<^verbatim>\<open>api.js\<close>: for the session \<^verbatim>\<open>s1\<close>, just
  started and not authenticated, whose payload never appears, the poll ends with the error
  response 408 "Timeout aguardando QR Code".
\<close>

theorem api_qr_timeout_counterexample:
  "api_get_qr ''s1'' never_seen api_started = [Response 408 (ErrorBody TimeoutAguardandoQRCode)]"
  by (simp add: api_get_qr_def api_started_eq new_session_def checkQR_never never_seen_def)

text \<open>
  Claim C3, amended. For an existing session that is not authenticated and has no pairing
  payload, when the payload is still absent at each of the 31 runs of the polling callback,
  the hybrid variant sends exactly one response, the normal result 200 "generating", and
  \<^verbatim>\<open>api.js\<close> sends exactly one response, the error 408 "Timeout aguardando QR Code".
\<close>

theorem qr_timeout_results:
  assumes "ss sid = Some s" "\<not> isAuthenticated s" "\<not> truthy (qrCode s)"
    and "\<forall>k. 1 \<le> k \<and> k \<le> 31 \<longrightarrow> \<not> truthy (obs k)"
  shows "rf_get_qr sid obs ss = [Response 200 (QrGenerating (simulated s))] \<and>
         api_get_qr sid obs ss = [Response 408 (ErrorBody TimeoutAguardandoQRCode)]"
proof -
  have "checkQR found timeout obs 0 = [timeout]" for found timeout
    using assms(4) by (intro checkQR_never) auto
  then show ?thesis using assms(1-3) by (simp add: rf_get_qr_def api_get_qr_def)
qed

theorem qr_timeout_results_witness:
  "rf_started ''s1'' = Some (new_session\<lparr>client := Some 1\<rparr>) \<and>
   \<not> isAuthenticated (new_session\<lparr>client := Some 1\<rparr>) \<and>
   \<not> truthy (qrCode (new_session\<lparr>client := Some 1\<rparr>)) \<and>
   \<not> truthy (never_seen 1) \<and> \<not> truthy (never_seen 31) \<and>
   rf_get_qr ''s1'' never_seen rf_started = [Response 200 (QrGenerating False)] \<and>
   api_get_qr ''s1'' never_seen rf_started = [Response 408 (ErrorBody TimeoutAguardandoQRCode)]"
  using qr_timeout_results [of rf_started "''s1''" "new_session\<lparr>client := Some 1\<rparr>" never_seen]
  by (simp add: rf_started_eq new_session_def never_seen_def)

subsection \<open>Destroying a session\<close>

text \<open>
  Claim C4, as the claim states it, fails: when \<^verbatim>\<open>sock.end()\<close> throws, \<^verbatim>\<open>DELETE\<close>
  answers 500 and the statement \<^verbatim>\<open>delete sessions[sessionId]\<close>, which follows the await
  inside the same \<^verbatim>\<open>try\<close>, is never reached: \<^verbatim>\<open>s1\<close> still resolves.
\<close>

theorem api_delete_teardown_failure_counterexample:
  "api_delete_session ''s1'' (Throws ''boom'') False (Returns ()) api_started =
     (Response 500 (ErrorBody (ErrorMessage ''boom'')), [SockEnd 1], api_started) \<and>
   api_started ''s1'' \<noteq> None"
  by (simp add: api_delete_session_def api_started_eq new_session_def)

text \<open>
  Claim C4, amended. For an existing session, destroy first asks the transport to shut down
  when the session holds a handle. When that call fails, destroy answers 500 with the
  error's message, makes no further call and leaves the dictionary unchanged: the session
  stays. When the shutdown succeeds or there is no handle (and, in \<^verbatim>\<open>api.js\<close>, removing
  the session's directory does not fail), destroy answers 200 and the id no longer
  resolves.
\<close>

theorem delete_session_teardown:
  assumes "ss sid = Some s"
  shows "(sock s = Some h \<longrightarrow>
            api_delete_session sid (Throws e) dir_exists removed ss =
              (Response 500 (ErrorBody (ErrorMessage e)), [SockEnd h], ss)) \<and>
         ((sock s = None \<or> ended = Returns ()) \<and> (\<not> dir_exists \<or> removed = Returns ()) \<longrightarrow>
            api_delete_session sid ended dir_exists removed ss =
              (Response 200 (SuccessBody None),
               (case sock s of Some h \<Rightarrow> [SockEnd h] | None \<Rightarrow> []) @
               (if dir_exists then [RmSessionDir sid] else []), ss(sid := None))) \<and>
         (client s = Some h \<longrightarrow>
            rf_delete_session sid (Throws e) ss =
              (Response 500 (ErrorBody (ErrorMessage e)), [ClientDestroy h], ss)) \<and>
         (client s = None \<or> destroyed = Returns () \<longrightarrow>
            rf_delete_session sid destroyed ss =
              (Response 200 (SuccessBody None),
               (case client s of Some h \<Rightarrow> [ClientDestroy h] | None \<Rightarrow> []), ss(sid := None)))"
  using assms
  by (auto simp: api_delete_session_def rf_delete_session_def Let_def
        split: outcome.splits option.splits)

theorem delete_session_teardown_witness:
  "api_started ''s1'' = Some (new_session\<lparr>sock := Some 1\<rparr>) \<and>
   api_delete_session ''s1'' (Throws ''boom'') True (Returns ()) api_started =
     (Response 500 (ErrorBody (ErrorMessage ''boom'')), [SockEnd 1], api_started) \<and>
   api_delete_session ''s1'' (Returns ()) True (Returns ()) api_started =
     (Response 200 (SuccessBody None), [SockEnd 1, RmSessionDir ''s1''], Map.empty) \<and>
   rf_started ''s1'' = Some (new_session\<lparr>client := Some 1\<rparr>) \<and>
   rf_delete_session ''s1'' (Throws ''boom'') rf_started =
     (Response 500 (ErrorBody (ErrorMessage ''boom'')), [ClientDestroy 1], rf_started) \<and>
   rf_delete_session ''s1'' (Returns ()) rf_started =
     (Response 200 (SuccessBody None), [ClientDestroy 1], Map.empty)"
  using delete_session_teardown [of api_started "''s1''" "new_session\<lparr>sock := Some 1\<rparr>" 1
      "''boom''" True "Returns ()" "Returns ()" "Returns ()"]
    delete_session_teardown [of rf_started "''s1''" "new_session\<lparr>client := Some 1\<rparr>" 1
      "''boom''" True "Returns ()" "Returns ()" "Returns ()"]
  by (simp add: api_started_eq rf_started_eq new_session_def)

text \<open>
  On every id that is not the name of a member of \<^verbatim>\<open>Object.prototype\<close> the lookup is the
  map of own keys, and the destroy handlers on any id are the handlers given first.
\<close>

lemma sessions_at_own_keys:
  "sid \<notin> set object_prototype_members \<Longrightarrow> sessions_at ss sid = ss sid"
  by (simp add: sessions_at_def split: option.splits)

lemma api_delete_session_any_id_ordinary:
  "sid \<notin> set object_prototype_members \<Longrightarrow>
   api_delete_session_any_id sid ended dir_exists removed ss =
     api_delete_session sid ended dir_exists removed ss"
  by (auto simp: api_delete_session_any_id_def api_delete_session_def sessions_at_def Let_def
        split: option.splits outcome.splits)

lemma rf_delete_session_any_id_ordinary:
  "sid \<notin> set object_prototype_members \<Longrightarrow>
   rf_delete_session_any_id sid destroyed ss = rf_delete_session sid destroyed ss"
  by (auto simp: rf_delete_session_any_id_def rf_delete_session_def sessions_at_def Let_def
        split: option.splits outcome.splits)

text \<open>The two steps of a start with nothing between them are the start request.\<close>

lemma rf_post_sessions_start_in_two_steps:
  "rf_post_sessions_start body_id now (Returns h) initialized rnd dataurl ss =
     (case rf_post_sessions_start_begin body_id now h ss of
        (Some r, calls, ss1) \<Rightarrow> (r, calls, ss1)
      | (None, calls, ss1) \<Rightarrow>
          (case rf_post_sessions_start_settle (request_session_id body_id now) initialized now rnd
                  dataurl ss1 of
             (r, calls2, ss2) \<Rightarrow> (r, calls @ calls2, ss2)))"
  by (auto simp: rf_post_sessions_start_def rf_post_sessions_start_begin_def
        rf_post_sessions_start_settle_def rf_startWhatsAppSession_def rf_fallback_def Let_def
        modify_def split: outcome.splits option.splits prod.splits)

text \<open>
  Claim C6 fails on the code in two ways, both evaluated here.

  In \<^verbatim>\<open>api.js\<close>, on the server just started, \<^verbatim>\<open>DELETE /sessions/toString\<close> passes the guard
  \<^verbatim>\<open>if (!sessions[sessionId])\<close> through the inherited member, finds no socket and no
  directory, removes nothing and answers 200. The id resolves as before: the status and
  messages requests answer 200, not 404.

  In the hybrid variant, a start request for \<^verbatim>\<open>s1\<close> writes the session and awaits
  \<^verbatim>\<open>client.initialize()\<close>; \<^verbatim>\<open>DELETE /sessions/s1\<close> then destroys the client and answers 200,
  and the dictionary is empty; \<^verbatim>\<open>initialize()\<close> then throws and the catch block writes the
  simulated session under \<^verbatim>\<open>s1\<close> without looking whether the id still resolves (the timers
  of the same function do look). The status request on \<^verbatim>\<open>s1\<close> then answers 200.
\<close>

theorem destroyed_id_still_resolves:
  "api_delete_session_any_id ''toString'' (Returns ()) False (Returns ()) Map.empty =
     (Response 200 (SuccessBody None), [], Map.empty) \<and>
   fst (api_get_status ''toString'' (sessions_at Map.empty)) =
     Response 200 (StatusBody
       \<lparr>st_isAuthenticated = False, st_connected = None, st_qrAvailable = False,
        st_messageCount = 0, st_user = None, st_simulated = None, st_status = ''waiting_qr''\<rparr>) \<and>
   fst (api_get_messages ''toString'' (sessions_at Map.empty)) =
     Response 200 (MessagesBody None 0 []) \<and>
   rf_post_sessions_start_begin (Some ''s1'') 0 1 Map.empty =
     (None, [ClientInitialize 1], rf_started) \<and>
   rf_delete_session ''s1'' (Returns ()) rf_started =
     (Response 200 (SuccessBody None), [ClientDestroy 1], Map.empty) \<and>
   rf_post_sessions_start_settle ''s1'' (Throws ''browser closed'') 0 ''abc''
       (Returns ''data:x'') Map.empty =
     (Response 200 (StartedBody ''s1'' False), [SetTimeout (SimulatedAuth ''s1'') 30000],
      rf_started_simulated) \<and>
   fst (rf_get_status ''s1'' rf_started_simulated) =
     Response 200 (StatusBody
       \<lparr>st_isAuthenticated = False, st_connected = Some False, st_qrAvailable = True,
        st_messageCount = 0, st_user = None, st_simulated = Some True,
        st_status = ''waiting_qr''\<rparr>)"
  by (simp add: api_delete_session_any_id_def api_delete_session_def sessions_at_def
        object_prototype_members_def inherited_member_def api_get_status_def
        api_get_messages_def rf_post_sessions_start_begin_def
        request_session_id_def rf_started_eq rf_delete_session_def new_session_def
        rf_post_sessions_start_settle_def rf_fallback_def modify_def Let_def dec.simps
        rf_started_simulated_eq rf_simulated_session_def rf_get_status_def)

subsection \<open>Sending a text message\<close>

text \<open>
  Claim C7, as the claim states it, fails on the hybrid variant: the check of \<^verbatim>\<open>number\<close>
  and \<^verbatim>\<open>message\<close> comes before the check of \<^verbatim>\<open>simulated\<close>, so a send without a number
  on the simulated session \<^verbatim>\<open>s1\<close> is refused with 400 "Numero e mensagem sao obrigatorios".
\<close>

theorem rf_send_missing_number_counterexample:
  "rf_started_simulated ''s1'' =
     Some (rf_simulated_session\<lparr>qrCode := Some ''data:x'', qrRaw := Some ''2@0abc''\<rparr>) \<and>
   rf_post_send_message ''s1'' None (Some ''oi'') (Returns (''x'', 0)) 5 ''abc''
       rf_started_simulated =
     (Response 400 (ErrorBody NumeroEMensagemObrigatorios), [], rf_started_simulated)"
  by (simp add: rf_post_send_message_def rf_started_simulated_eq)

text \<open>
  Claim C7, amended. For an existing session that is not authenticated, \<^verbatim>\<open>api.js\<close> answers
  400 "Sessao nao autenticada" and calls nothing, whatever the request holds. In the hybrid
  variant, for a request that gives both a number and a message: an existing session that
  is neither simulated nor authenticated gets 400 "Sessao nao autenticada" and nothing is
  called; an existing simulated session gets 200 with the message id
  \<^verbatim>\<open>sim_<now>_<random>\<close> and the timestamp \<^verbatim>\<open>now\<close>, and nothing is called on the transport.
\<close>

theorem send_message_unauthenticated_or_simulated:
  assumes "ss sid = Some s"
  shows "(\<not> isAuthenticated s \<longrightarrow>
            api_post_send_message sid number msg sent now ss =
              (Response 400 (ErrorBody SessaoNaoAutenticada), [], ss)) \<and>
         (truthy number \<and> truthy msg \<and> \<not> simulated s \<and> \<not> isAuthenticated s \<longrightarrow>
            rf_post_send_message sid number msg rsent now rnd ss =
              (Response 400 (ErrorBody SessaoNaoAutenticada), [], ss)) \<and>
         (truthy number \<and> truthy msg \<and> simulated s \<longrightarrow>
            rf_post_send_message sid number msg rsent now rnd ss =
              (Response 200 (SentBody (''sim_'' @ dec now @ ''_'' @ rnd) (int now)), [], ss))"
  using assms by (simp add: api_post_send_message_def rf_post_send_message_def)

theorem send_message_unauthenticated_or_simulated_witness:
  "rf_started ''s1'' = Some (new_session\<lparr>client := Some 1\<rparr>) \<and>
   api_post_send_message ''s1'' (Some ''5511'') (Some ''oi'') (Returns ''x'') 5 rf_started =
     (Response 400 (ErrorBody SessaoNaoAutenticada), [], rf_started) \<and>
   rf_post_send_message ''s1'' (Some ''5511'') (Some ''oi'') (Returns (''x'', 0)) 5 ''abc'' rf_started =
     (Response 400 (ErrorBody SessaoNaoAutenticada), [], rf_started) \<and>
   rf_started_simulated ''s1'' =
     Some (rf_simulated_session\<lparr>qrCode := Some ''data:x'', qrRaw := Some ''2@0abc''\<rparr>) \<and>
   rf_post_send_message ''s1'' (Some ''5511'') (Some ''oi'') (Returns (''x'', 0)) 5 ''abc''
       rf_started_simulated =
     (Response 200 (SentBody ''sim_5_abc'' 5), [], rf_started_simulated)"
  using send_message_unauthenticated_or_simulated
      [of rf_started "''s1''" "new_session\<lparr>client := Some 1\<rparr>" "Some ''5511''" "Some ''oi''"
          "Returns ''x''" 5 "Returns (''x'', 0)" "''abc''"]
    send_message_unauthenticated_or_simulated
      [of rf_started_simulated "''s1''"
          "rf_simulated_session\<lparr>qrCode := Some ''data:x'', qrRaw := Some ''2@0abc''\<rparr>"
          "Some ''5511''" "Some ''oi''" "Returns ''x''" 5 "Returns (''x'', 0)" "''abc''"]
  by (simp add: rf_started_eq rf_started_simulated_eq new_session_def rf_simulated_session_def
        dec.simps)

subsection \<open>Restoring a session\<close>

text \<open>
  Claim C8, as the claim states it, fails: a restore of \<^verbatim>\<open>s1\<close> that answers 200 leaves the
  message the session had received in its buffer.
\<close>

theorem api_restore_keeps_messages_counterexample:
  "api_with_message ''s1'' =
     Some (new_session\<lparr>sock := Some 1, messages := [api_example_message]\<rparr>) \<and>
   api_post_restore ''s1'' (Returns ()) (Returns 2) api_with_message =
     (Response 200 (SuccessBody None), [SockEnd 1, StartTransport ''s1''],
      [''s1'' \<mapsto> new_session\<lparr>sock := Some 2, messages := [api_example_message]\<rparr>])"
  by (simp add: api_post_restore_def api_with_message_eq modify_def new_session_def)

text \<open>
  Claim C8, amended. For an existing session, a restore that answers 200 sets
  \<^verbatim>\<open>isAuthenticated\<close> to false and \<^verbatim>\<open>qrCode\<close> to null (the hybrid variant also sets
  \<^verbatim>\<open>connected\<close> to false), keeps the session under the same id and leaves its message
  buffer as it was. \<^verbatim>\<open>api.js\<close> ends the socket the session holds, starts the transport again
  and stores the new socket; the hybrid variant destroys the client the session holds and
  schedules \<^verbatim>\<open>initialize()\<close> of the same client one second later.
\<close>

theorem restore_session_resets_pairing:
  assumes "ss sid = Some s"
  shows "(sock s = None \<or> ended = Returns () \<longrightarrow>
            api_post_restore sid ended (Returns h) ss =
              (Response 200 (SuccessBody None),
               (case sock s of Some h0 \<Rightarrow> [SockEnd h0] | None \<Rightarrow> []) @ [StartTransport sid],
               ss(sid \<mapsto> s\<lparr>sock := Some h, isAuthenticated := False, qrCode := None\<rparr>)) \<and>
            map_option messages (snd (snd (api_post_restore sid ended (Returns h) ss)) sid) =
              Some (messages s)) \<and>
         (client s = None \<or> destroyed = Returns () \<longrightarrow>
            rf_post_restore sid destroyed ss =
              (Response 200 (SuccessBody (Some (simulated s))),
               (case client s of
                  Some h0 \<Rightarrow> [ClientDestroy h0, SetTimeout (Reinitialize sid) 1000]
                | None \<Rightarrow> []),
               ss(sid \<mapsto> s\<lparr>isAuthenticated := False, qrCode := None, connected := False\<rparr>)) \<and>
            map_option messages (snd (snd (rf_post_restore sid destroyed ss)) sid) =
              Some (messages s))"
  using assms
  by (auto simp: api_post_restore_def rf_post_restore_def modify_def Let_def
        split: option.splits outcome.splits)

theorem restore_session_resets_pairing_witness:
  "api_with_message ''s1'' =
     Some (new_session\<lparr>sock := Some 1, messages := [api_example_message]\<rparr>) \<and>
   api_post_restore ''s1'' (Returns ()) (Returns 2) api_with_message =
     (Response 200 (SuccessBody None), [SockEnd 1, StartTransport ''s1''],
      [''s1'' \<mapsto> new_session\<lparr>sock := Some 2, messages := [api_example_message]\<rparr>]) \<and>
   map_option messages (rf_paired ''s1'') =
     Some [rf_messageData (fst (numbered_msg 7)) (snd (numbered_msg 7))] \<and>
   rf_post_restore ''s1'' (Returns ()) rf_paired =
     (Response 200 (SuccessBody (Some False)),
      [ClientDestroy 1, SetTimeout (Reinitialize ''s1'') 1000],
      [''s1'' \<mapsto> new_session\<lparr>client := Some 1, qrRaw := Some ''qr-1'',
         messages := [rf_messageData (fst (numbered_msg 7)) (snd (numbered_msg 7))]\<rparr>])"
  using restore_session_resets_pairing
      [of api_with_message "''s1''"
          "new_session\<lparr>sock := Some 1, messages := [api_example_message]\<rparr>" "Returns ()" 2
          "Returns ()"]
    restore_session_resets_pairing
      [of rf_paired "''s1''"
          "new_session\<lparr>client := Some 1, qrRaw := Some ''qr-1'', isAuthenticated := True,
             connected := True,
             messages := [rf_messageData (fst (numbered_msg 7)) (snd (numbered_msg 7))]\<rparr>"
          "Returns ()" 2 "Returns ()"]
  by (simp add: api_with_message_eq rf_paired_eq new_session_def)

subsection \<open>Reading the messages of a simulated session\<close>

text \<open>
  Claim C9. In the hybrid variant, the messages request on an existing simulated session
  whose buffer is empty stores the two example messages \<^verbatim>\<open>sim_1\<close> and \<^verbatim>\<open>sim_2\<close> in the
  session and answers with them and the count 2; the status request, which reported
  \<^verbatim>\<open>messageCount\<close> 0 before, reports 2 afterwards, with no message event in between.
\<close>

theorem rf_get_messages_writes_examples:
  assumes "ss sid = Some s" "simulated s" "messages s = []"
  shows "rf_get_messages sid now ss =
           (Response 200 (MessagesBody (Some True) 2 (rf_example_messages now)), [],
            ss(sid \<mapsto> s\<lparr>messages := rf_example_messages now\<rparr>)) \<and>
         messageCount_of (fst (rf_get_status sid ss)) = Some 0 \<and>
         messageCount_of (fst (rf_get_status sid (snd (snd (rf_get_messages sid now ss))))) = Some 2"
  using assms
  by (simp add: rf_get_messages_def rf_get_status_def messageCount_of_def rf_example_messages_def)

theorem rf_get_messages_writes_examples_witness:
  "rf_started_simulated ''s1'' =
     Some (rf_simulated_session\<lparr>qrCode := Some ''data:x'', qrRaw := Some ''2@0abc''\<rparr>) \<and>
   simulated (rf_simulated_session\<lparr>qrCode := Some ''data:x'', qrRaw := Some ''2@0abc''\<rparr>) \<and>
   messages (rf_simulated_session\<lparr>qrCode := Some ''data:x'', qrRaw := Some ''2@0abc''\<rparr>) = [] \<and>
   fst (rf_get_messages ''s1'' 7200000 rf_started_simulated) =
     Response 200 (MessagesBody (Some True) 2 (rf_example_messages 7200000)) \<and>
   messageCount_of (fst (rf_get_status ''s1'' rf_started_simulated)) = Some 0 \<and>
   messageCount_of (fst (rf_get_status ''s1''
     (snd (snd (rf_get_messages ''s1'' 7200000 rf_started_simulated))))) = Some 2"
  using rf_get_messages_writes_examples
      [of rf_started_simulated "''s1''"
          "rf_simulated_session\<lparr>qrCode := Some ''data:x'', qrRaw := Some ''2@0abc''\<rparr>" 7200000]
  by (simp add: rf_started_simulated_eq rf_simulated_session_def rf_get_status_def
        messageCount_of_def rf_example_messages_def)

subsection \<open>Properties of every session of a run\<close>

lemma all_sessions_empty: "all_sessions P Map.empty"
  by (simp add: all_sessions_def)

lemma all_sessions_upd: "all_sessions P ss \<Longrightarrow> P s \<Longrightarrow> all_sessions P (ss(sid \<mapsto> s))"
  by (simp add: all_sessions_def)

lemma all_sessions_del: "all_sessions P ss \<Longrightarrow> all_sessions P (ss(sid := None))"
  by (simp add: all_sessions_def)

lemma all_sessions_modify:
  "all_sessions P ss \<Longrightarrow> (\<And>s. P s \<Longrightarrow> P (f s)) \<Longrightarrow> modify sid f ss = Returns ss' \<Longrightarrow>
   all_sessions P ss'"
  by (auto simp: all_sessions_def modify_def split: option.splits if_splits)

text \<open>
  A property \<open>P\<close> that the writes of \<^verbatim>\<open>api.js\<close> keep holds of every session after every
  step; the assumptions list those writes.
\<close>

lemma api_start_keeps:
  assumes "all_sessions P ss" "P new_session" "\<And>s h. P s \<Longrightarrow> P (s\<lparr>sock := Some h\<rparr>)"
  shows "all_sessions P (snd (snd (api_post_sessions_start body_id now started ss)))"
  using assms
  by (auto simp: api_post_sessions_start_def Let_def modify_def
        intro!: all_sessions_upd all_sessions_del split: outcome.splits option.splits)

lemma api_restore_keeps:
  assumes "all_sessions P ss"
    "\<And>s h. P s \<Longrightarrow> P (s\<lparr>sock := Some h, isAuthenticated := False, qrCode := None\<rparr>)"
  shows "all_sessions P (snd (snd (api_post_restore sid ended started ss)))"
  using assms
  by (auto simp: api_post_restore_def Let_def modify_def all_sessions_def
        split: outcome.splits option.splits)

lemma api_delete_keeps:
  "all_sessions P ss \<Longrightarrow>
   all_sessions P (snd (snd (api_delete_session sid ended dir_exists removed ss)))"
  by (auto simp: api_delete_session_def Let_def all_sessions_def
        split: outcome.splits option.splits)

lemma api_update_keeps:
  assumes "all_sessions P ss"
    "\<And>s q. P s \<Longrightarrow> P (s\<lparr>qrCode := Some q, isAuthenticated := False\<rparr>)"
    "\<And>s u. P s \<Longrightarrow> P (s\<lparr>isAuthenticated := True, qrCode := None, user := u\<rparr>)"
  shows "all_sessions P
           (snd (snd (api_on_connection_update sid sock_user dir_exists removed upd ss)))"
proof -
  let ?f = "\<lambda>s. s\<lparr>qrCode := Some (qrDataURL (the (qr upd))), isAuthenticated := False\<rparr>"
  let ?g = "\<lambda>s. s\<lparr>isAuthenticated := True, qrCode := None, user := sock_user\<rparr>"
  have 1: "modify sid ?f ss = Returns ss1 \<Longrightarrow> all_sessions P ss1" for ss1
    using all_sessions_modify[OF assms(1), of ?f sid ss1] assms(2) by simp
  have 2: "all_sessions P ss1 \<Longrightarrow> modify sid ?g ss1 = Returns ss2 \<Longrightarrow> all_sessions P ss2"
    for ss1 ss2
    using all_sessions_modify[of P ss1 ?g sid ss2] assms(3) by simp
  show ?thesis
    using assms(1) 1 2
    by (auto simp: api_on_connection_update_def intro: all_sessions_del
          split: outcome.splits if_splits)
qed

lemma api_upsert_keeps:
  assumes "all_sessions P ss" "\<And>s md. P s \<Longrightarrow> P (push_message md s)"
  shows "all_sessions P (snd (snd (api_on_messages_upsert sid ms ss)))"
  using assms
  by (auto simp: api_on_messages_upsert_def dest: all_sessions_modify
        split: outcome.splits option.splits list.splits)

lemma api_send_same: "snd (snd (api_post_send_message sid number msg sent now ss)) = ss"
  by (auto simp: api_post_send_message_def Let_def split: outcome.splits option.splits)

lemma api_get_messages_same: "snd (snd (api_get_messages sid ss)) = ss"
  by (auto simp: api_get_messages_def split: option.splits)

lemma api_get_status_same: "snd (snd (api_get_status sid ss)) = ss"
  by (auto simp: api_get_status_def split: option.splits)

lemma api_step_keeps:
  assumes "all_sessions P ss" "P new_session" "\<And>s h. P s \<Longrightarrow> P (s\<lparr>sock := Some h\<rparr>)"
    "\<And>s h. P s \<Longrightarrow> P (s\<lparr>sock := Some h, isAuthenticated := False, qrCode := None\<rparr>)"
    "\<And>s q. P s \<Longrightarrow> P (s\<lparr>qrCode := Some q, isAuthenticated := False\<rparr>)"
    "\<And>s u. P s \<Longrightarrow> P (s\<lparr>isAuthenticated := True, qrCode := None, user := u\<rparr>)"
    "\<And>s md. P s \<Longrightarrow> P (push_message md s)"
  shows "all_sessions P (api_step ev ss)"
proof (cases ev)
  case (ApiStart body_id now started)
  then show ?thesis using api_start_keeps[OF assms(1,2,3)] by simp
next
  case (ApiSendMessage sid number msg sent now)
  then show ?thesis using assms(1) by (simp add: api_send_same)
next
  case (ApiGetMessages sid)
  then show ?thesis using assms(1) by (simp add: api_get_messages_same)
next
  case (ApiGetStatus sid)
  then show ?thesis using assms(1) by (simp add: api_get_status_same)
next
  case (ApiRestore sid ended started)
  then show ?thesis using api_restore_keeps[OF assms(1,4)] by simp
next
  case (ApiDelete sid ended dir_exists removed)
  then show ?thesis using api_delete_keeps[OF assms(1)] by simp
next
  case (ApiConnectionUpdate sid sock_user dir_exists removed upd)
  then show ?thesis using api_update_keeps[OF assms(1,5,6)] by simp
next
  case (ApiMessagesUpsert sid ms)
  then show ?thesis using api_upsert_keeps[OF assms(1,7)] by simp
qed

lemma api_run_keeps:
  assumes "all_sessions P ss" "P new_session" "\<And>s h. P s \<Longrightarrow> P (s\<lparr>sock := Some h\<rparr>)"
    "\<And>s h. P s \<Longrightarrow> P (s\<lparr>sock := Some h, isAuthenticated := False, qrCode := None\<rparr>)"
    "\<And>s q. P s \<Longrightarrow> P (s\<lparr>qrCode := Some q, isAuthenticated := False\<rparr>)"
    "\<And>s u. P s \<Longrightarrow> P (s\<lparr>isAuthenticated := True, qrCode := None, user := u\<rparr>)"
    "\<And>s md. P s \<Longrightarrow> P (push_message md s)"
  shows "all_sessions P (api_run evs ss)"
  using assms(1) unfolding api_run_def
proof (induction evs arbitrary: ss)
  case Nil
  then show ?case by simp
next
  case (Cons ev evs)
  have "all_sessions P (api_step ev ss)"
    using api_step_keeps[OF Cons.prems assms(2-7)] by simp
  then show ?case using Cons.IH by simp
qed

subsection \<open>The message buffer\<close>

lemma slice_last_short: "length xs \<le> n \<Longrightarrow> slice_last n xs = xs"
  by (simp add: slice_last_def)

lemma slice_last_length: "length (slice_last n xs) = min n (length xs)"
  by (simp add: slice_last_def)

lemma slice_last_append: "slice_last n (slice_last n xs @ ys) = slice_last n (xs @ ys)"
  by (cases "length xs \<le> n") (simp_all add: slice_last_def ac_simps)

lemma slice_last_101: "length xs = 101 \<Longrightarrow> hd (slice_last 100 xs) = xs ! 1"
  by (simp add: slice_last_def hd_drop_conv_nth)

lemma push_message_messages: "messages (push_message md s) = slice_last 100 (messages s @ [md])"
  by (simp add: push_message_def Let_def slice_last_short)

lemma push_message_length: "length (messages (push_message md s)) \<le> 100"
  by (simp add: push_message_messages slice_last_length)

lemma fold_push_message:
  "length (messages s) \<le> 100 \<Longrightarrow>
   messages (fold push_message mds s) = slice_last 100 (messages s @ mds)"
proof (induction mds arbitrary: s)
  case Nil
  then show ?case by (simp add: slice_last_short)
next
  case (Cons md mds)
  have "messages (fold push_message mds (push_message md s)) =
        slice_last 100 (messages (push_message md s) @ mds)"
    by (rule Cons.IH) (rule push_message_length)
  then show ?case
    by (simp add: push_message_messages slice_last_append)
qed

lemma rf_message_step:
  "ss sid = Some s \<Longrightarrow>
   rf_step (RfMessage sid msg downloaded) ss =
     ss(sid \<mapsto> push_message (rf_messageData msg downloaded) s)"
  by (simp add: rf_on_message_def modify_def)

lemma rf_message_run:
  "ss sid = Some s \<Longrightarrow>
   rf_run (rf_message_events sid ws) ss sid = Some (fold push_message (rf_appended ws) s)"
  unfolding rf_run_def rf_message_events_def rf_appended_def
proof (induction ws arbitrary: ss s)
  case Nil
  then show ?case by simp
next
  case (Cons w ws)
  obtain msg downloaded where w: "w = (msg, downloaded)" by (cases w)
  have "(ss(sid \<mapsto> push_message (rf_messageData msg downloaded) s)) sid =
        Some (push_message (rf_messageData msg downloaded) s)" by simp
  from Cons.IH [of "ss(sid \<mapsto> push_message (rf_messageData msg downloaded) s)"
      "push_message (rf_messageData msg downloaded) s", OF this]
  show ?case
    using Cons.prems by (simp add: w rf_message_step del: rf_step.simps fun_upd_apply)
qed

lemma api_upsert_step:
  "ss sid = Some s \<Longrightarrow>
   api_step (ApiMessagesUpsert sid ms) ss sid = Some (fold push_message (api_appended [ms]) s)"
  by (auto simp: api_on_messages_upsert_def modify_def split: list.splits option.splits)

lemma api_upsert_run:
  "ss sid = Some s \<Longrightarrow>
   api_run (map (ApiMessagesUpsert sid) mss) ss sid =
     Some (fold push_message (api_appended mss) s)"
  unfolding api_run_def
proof (induction mss arbitrary: ss s)
  case Nil
  then show ?case by simp
next
  case (Cons ms mss)
  have "api_step (ApiMessagesUpsert sid ms) ss sid =
        Some (fold push_message (api_appended [ms]) s)"
    using Cons.prems by (rule api_upsert_step)
  from Cons.IH [of "api_step (ApiMessagesUpsert sid ms) ss"
      "fold push_message (api_appended [ms]) s", OF this]
  show ?case by simp
qed

lemma api_run_bounded:
  "all_sessions (\<lambda>s. length (messages s) \<le> 100) (api_run evs Map.empty)"
  by (rule api_run_keeps) (simp_all add: all_sessions_empty new_session_def push_message_length)

lemma rf_step_bounded:
  assumes "all_sessions (\<lambda>s. length (messages s) \<le> 100) ss"
  shows "all_sessions (\<lambda>s. length (messages s) \<le> 100) (rf_step ev ss)"
proof (cases ev)
  case (RfStart body_id now created initialized rnd dataurl)
  then show ?thesis using assms
    by (auto simp: rf_post_sessions_start_def rf_startWhatsAppSession_def rf_fallback_def
          Let_def modify_def all_sessions_def new_session_def rf_simulated_session_def
          split: outcome.splits option.splits prod.splits if_splits)
next
  case (RfStartBegin body_id now h)
  then show ?thesis using assms
    by (auto simp: rf_post_sessions_start_begin_def Let_def all_sessions_def new_session_def
          split: if_splits)
next
  case (RfStartSettle sid initialized now rnd dataurl)
  then show ?thesis using assms
    by (auto simp: rf_post_sessions_start_settle_def rf_fallback_def Let_def modify_def
          all_sessions_def rf_simulated_session_def
          split: outcome.splits option.splits prod.splits if_splits)
next
  case (RfGetMessages sid now)
  then show ?thesis using assms
    by (auto simp: rf_get_messages_def Let_def all_sessions_def rf_example_messages_def
          split: option.splits if_splits)
next
  case (RfMessage sid msg downloaded)
  then show ?thesis using assms
    by (auto simp: rf_on_message_def modify_def all_sessions_def push_message_length
          split: option.splits if_splits)
next
  case (RfTimer t)
  then show ?thesis using assms
    by (cases t) (auto simp: all_sessions_def split: option.splits if_splits)
qed (use assms in \<open>auto simp: rf_post_send_message_def rf_get_status_def
      rf_post_restore_def rf_delete_session_def rf_on_qr_def rf_on_ready_def
      rf_on_authenticated_def rf_on_disconnected_def modify_def Let_def all_sessions_def
      split: outcome.splits option.splits if_splits\<close>)

lemma rf_run_bounded:
  "all_sessions (\<lambda>s. length (messages s) \<le> 100) ss \<Longrightarrow>
   all_sessions (\<lambda>s. length (messages s) \<le> 100) (rf_run evs ss)"
  unfolding rf_run_def
  by (induction evs arbitrary: ss) (simp_all add: rf_step_bounded)

text \<open>
  Claim C1. After any sequence of requests, socket or client events and timers, starting
  from the empty dictionary, every session's message buffer holds at most 100 entries, in
  \<^verbatim>\<open>api.js\<close> and in the hybrid variant. And when a session with an empty buffer receives a
  sequence of message events, its buffer afterwards is \<^verbatim>\<open>slice(-100)\<close> of what those
  events append, in their order: all of it up to 100 messages, the last 100 beyond.
\<close>

theorem message_buffer_keeps_last_100:
  "all_sessions (\<lambda>s. length (messages s) \<le> 100) (api_run evs Map.empty) \<and>
   all_sessions (\<lambda>s. length (messages s) \<le> 100) (rf_run revs Map.empty) \<and>
   (ss sid = Some s \<and> messages s = [] \<longrightarrow>
      map_option messages (api_run (map (ApiMessagesUpsert sid) mss) ss sid) =
        Some (slice_last 100 (api_appended mss)) \<and>
      map_option messages (rf_run (rf_message_events sid ws) ss sid) =
        Some (slice_last 100 (rf_appended ws)))"
proof (intro conjI impI)
  show "all_sessions (\<lambda>s. length (messages s) \<le> 100) (api_run evs Map.empty)"
    by (rule api_run_bounded)
  show "all_sessions (\<lambda>s. length (messages s) \<le> 100) (rf_run revs Map.empty)"
    by (rule rf_run_bounded) (rule all_sessions_empty)
next
  assume a: "ss sid = Some s \<and> messages s = []"
  then show "map_option messages (api_run (map (ApiMessagesUpsert sid) mss) ss sid) =
        Some (slice_last 100 (api_appended mss))"
    by (simp add: api_upsert_run fold_push_message)
  from a show "map_option messages (rf_run (rf_message_events sid ws) ss sid) =
        Some (slice_last 100 (rf_appended ws))"
    by (simp add: rf_message_run fold_push_message)
qed

text \<open>
  The scenario of the claim: 101 messages, numbered from 0, arrive at the fresh session
  \<^verbatim>\<open>s1\<close>; the buffer then holds 100 messages and its first is message number 1. The
  bound also holds of \<^verbatim>\<open>s1\<close> at the end of that run and of a short run of \<^verbatim>\<open>api.js\<close>.
\<close>

theorem message_buffer_keeps_last_100_witness:
  "rf_started ''s1'' = Some (new_session\<lparr>client := Some 1\<rparr>) \<and>
   messages (new_session\<lparr>client := Some 1\<rparr>) = [] \<and>
   map_option (\<lambda>s. length (messages s))
     (rf_run (rf_message_events ''s1'' (map numbered_msg [0..<101])) rf_started ''s1'') =
     Some 100 \<and>
   map_option (\<lambda>s. m_timestamp (hd (messages s)))
     (rf_run (rf_message_events ''s1'' (map numbered_msg [0..<101])) rf_started ''s1'') =
     Some 1 \<and>
   map_option (\<lambda>s. length (messages s) \<le> 100)
     (rf_run (RfStart (Some ''s1'') 0 (Returns 1) (Returns ()) ''abc'' (Returns ''data:x'') #
              rf_message_events ''s1'' (map numbered_msg [0..<101])) Map.empty ''s1'') =
     Some True \<and>
   map_option (\<lambda>s. length (messages s) \<le> 100)
     (api_run [ApiStart (Some ''s1'') 0 (Returns 1),
               ApiMessagesUpsert ''s1'' [], ApiGetStatus ''s1''] Map.empty ''s1'') = Some True"
proof -
  let ?ws = "map numbered_msg [0..<101]"
  let ?revs = "RfStart (Some ''s1'') 0 (Returns 1) (Returns ()) ''abc'' (Returns ''data:x'') #
               rf_message_events ''s1'' ?ws"
  let ?evs = "[ApiStart (Some ''s1'') 0 (Returns 1), ApiMessagesUpsert ''s1'' [],
               ApiGetStatus ''s1'']"
  note inst = message_buffer_keeps_last_100
      [of ?evs ?revs rf_started "''s1''" "new_session\<lparr>client := Some 1\<rparr>" "[]" ?ws]
  have s: "rf_started ''s1'' = Some (new_session\<lparr>client := Some 1\<rparr>)"
    by (simp add: rf_started_eq)
  have m: "messages (new_session\<lparr>client := Some 1\<rparr>) = []"
    by (simp add: new_session_def)
  have l: "length (rf_appended ?ws) = 101"
    by (simp add: rf_appended_def)
  have "rf_appended ?ws ! 1 = rf_messageData (fst (numbered_msg 1)) (snd (numbered_msg 1))"
    by (simp add: rf_appended_def case_prod_beta del: upt_Suc)
  then have h: "m_timestamp (hd (slice_last 100 (rf_appended ?ws))) = 1"
    by (simp add: slice_last_101 [OF l] numbered_msg_def rf_messageData_def)
  have run: "map_option messages (rf_run (rf_message_events ''s1'' ?ws) rf_started ''s1'') =
        Some (slice_last 100 (rf_appended ?ws))"
    using inst s m by blast
  have split: "rf_run ?revs Map.empty = rf_run (rf_message_events ''s1'' ?ws) rf_started"
    by (simp add: rf_run_def rf_started_def)
  obtain s' where s': "rf_run ?revs Map.empty ''s1'' = Some s'"
    using run split by auto
  have "length (messages s') \<le> 100"
    using inst s' by (simp add: all_sessions_def)
  then have inv_rf: "map_option (\<lambda>s. length (messages s) \<le> 100) (rf_run ?revs Map.empty ''s1'') =
      Some True"
    using s' by simp
  have "\<exists>a. api_run ?evs Map.empty ''s1'' = Some a"
    by (simp add: api_run_def api_post_sessions_start_def request_session_id_def modify_def
          Let_def api_on_messages_upsert_def api_get_status_def)
  then obtain a where a: "api_run ?evs Map.empty ''s1'' = Some a" by blast
  have "length (messages a) \<le> 100"
    using inst a by (simp add: all_sessions_def)
  then have inv_api: "map_option (\<lambda>s. length (messages s) \<le> 100) (api_run ?evs Map.empty ''s1'') =
      Some True"
    using a by simp
  show ?thesis using s m l h run inv_rf inv_api
    by (auto simp: slice_last_length)
qed

subsection \<open>The pairing payload of an authenticated session\<close>

text \<open>
  Claim C2 on the hybrid variant. The listener of \<^verbatim>\<open>authenticated\<close> sets
  \<^verbatim>\<open>isAuthenticated\<close> and leaves \<^verbatim>\<open>qrCode\<close> as it is (the listener of \<^verbatim>\<open>ready\<close> clears it);
  the timer of a simulated session does the same. After a start, a \<^verbatim>\<open>qr\<close> event and an
  \<^verbatim>\<open>authenticated\<close> event the session \<^verbatim>\<open>s1\<close> is authenticated and still holds the payload;
  after a start that fell back to a simulated session and the timer, likewise.
\<close>

theorem rf_authenticated_keeps_qr:
  "rf_run [RfStart (Some ''s1'') 0 (Returns 1) (Returns ()) ''abc'' (Returns ''data:x''),
           RfQr ''s1'' ''qr-1'' (Returns ''data:qr-1''),
           RfAuthenticated ''s1''] Map.empty ''s1'' =
     Some (new_session\<lparr>client := Some 1, qrCode := Some ''data:qr-1'', qrRaw := Some ''qr-1'',
             isAuthenticated := True\<rparr>) \<and>
   rf_run [RfStart (Some ''s1'') 0 (Returns 1) (Throws ''no browser'') ''abc''
             (Returns ''data:x''),
           RfTimer (SimulatedAuth ''s1'')] Map.empty ''s1'' =
     Some (rf_simulated_session\<lparr>qrCode := Some ''data:x'', qrRaw := Some ''2@0abc'',
             isAuthenticated := True, connected := True\<rparr>)"
  by (simp add: rf_run_def rf_post_sessions_start_def request_session_id_def
        rf_startWhatsAppSession_def rf_fallback_def rf_on_qr_def rf_on_authenticated_def
        modify_def Let_def dec.simps new_session_def rf_simulated_session_def)

text \<open>
  In \<^verbatim>\<open>api.js\<close> the property of claim C2 holds: after any sequence of requests and socket
  events, starting from the empty dictionary, an authenticated session has no pairing
  payload. The only write that sets \<^verbatim>\<open>isAuthenticated\<close> also sets \<^verbatim>\<open>qrCode\<close> to null, and the
  only write that stores a payload also resets \<^verbatim>\<open>isAuthenticated\<close>.
\<close>

theorem api_authenticated_without_qr:
  "all_sessions (\<lambda>s. isAuthenticated s \<longrightarrow> qrCode s = None) (api_run evs Map.empty)"
  by (rule api_run_keeps)
     (simp_all add: all_sessions_empty new_session_def push_message_def Let_def)

theorem api_authenticated_without_qr_witness:
  "map_option (\<lambda>s. (isAuthenticated s, qrCode s))
     (api_run [ApiStart (Some ''s1'') 0 (Returns 1),
               ApiConnectionUpdate ''s1'' None False (Returns ())
                 \<lparr>connection = Some ConnConnecting, lastDisconnect_statusCode = None,
                  qr = Some ''qr-1''\<rparr>,
               ApiConnectionUpdate ''s1'' None False (Returns ())
                 \<lparr>connection = Some ConnOpen, lastDisconnect_statusCode = None, qr = None\<rparr>]
        Map.empty ''s1'') = Some (True, None)"
proof -
  let ?evs = "[ApiStart (Some ''s1'') 0 (Returns 1),
               ApiConnectionUpdate ''s1'' None False (Returns ())
                 \<lparr>connection = Some ConnConnecting, lastDisconnect_statusCode = None,
                  qr = Some ''qr-1''\<rparr>,
               ApiConnectionUpdate ''s1'' None False (Returns ())
                 \<lparr>connection = Some ConnOpen, lastDisconnect_statusCode = None, qr = None\<rparr>]"
  have "\<exists>s. api_run ?evs Map.empty ''s1'' = Some s \<and> isAuthenticated s"
    by (simp add: api_run_def api_post_sessions_start_def request_session_id_def
          api_on_connection_update_def modify_def Let_def new_session_def)
  then obtain s where s: "api_run ?evs Map.empty ''s1'' = Some s" "isAuthenticated s"
    by blast
  then have "qrCode s = None"
    using api_authenticated_without_qr [of ?evs] by (simp add: all_sessions_def)
  then show ?thesis using s by simp
qed

end
